theory Spec2Isabelle
  imports Complex_Main "HOL-Library.Multiset"
begin

section \<open>The decision-support scoring engine of \<^verbatim>\<open>main.py\<close>\<close>

text \<open>
  The two analysis endpoints \<^verbatim>\<open>calculate_saw\<close> and \<^verbatim>\<open>calculate_wp\<close> read three tables and
  compute a ranking. The tables are modelled as the lists of rows the queries return, in
  the order the queries return them. The endpoints are modelled twice. Where a property
  is about the values that are compared, the branch that is taken, the formula that is
  applied, the exception that is raised or the order of the result, Python floats are
  idealised as reals: the loss of precision of binary floating point is not modelled. Where
  a property is about the numbers that are reported as scores, the lines that compute
  them are modelled over the floats, with the float operations as parameters.
\<close>

subsection \<open>Tables\<close>

record location =
  loc_id :: int
  loc_name :: string
  loc_address :: string
  loc_latitude :: real
  loc_longitude :: real

record criterion =
  crit_id :: string
  crit_name :: string
  crit_weight :: real
  crit_type :: string

record location_criterion =
  lc_location_id :: int
  lc_criteria_id :: string
  lc_value :: real

record db =
  locations :: "location list"
  criteria :: "criterion list"
  location_criteria :: "location_criterion list"

datatype error = KeyError | ValueError | OverflowError

subsection \<open>Queries\<close>

text \<open>
  \<^verbatim>\<open>SELECT value FROM location_criteria WHERE location_id = ? AND criteria_id = ?\<close>
  followed by \<^verbatim>\<open>fetchone()\<close> and \<^verbatim>\<open>value['value'] if value else 0\<close>.
\<close>

definition fetch_value :: "db \<Rightarrow> int \<Rightarrow> string \<Rightarrow> real" where
  "fetch_value d lid cid =
     (case find (\<lambda>r. lc_location_id r = lid \<and> lc_criteria_id r = cid) (location_criteria d) of
        None \<Rightarrow> 0
      | Some r \<Rightarrow> lc_value r)"

text \<open>
  \<^verbatim>\<open>SELECT location_id, value FROM location_criteria WHERE criteria_id = ?\<close> and
  \<^verbatim>\<open>[row['value'] for row in c.fetchall()]\<close>.
\<close>

definition criterion_values :: "db \<Rightarrow> string \<Rightarrow> real list" where
  "criterion_values d cid =
     map lc_value (filter (\<lambda>r. lc_criteria_id r = cid) (location_criteria d))"

subsection \<open>Built-ins\<close>

text \<open>\<^verbatim>\<open>max(values)\<close> and \<^verbatim>\<open>min(values)\<close> scan the list from its first element.\<close>

fun py_max :: "real list \<Rightarrow> real" where
  "py_max [] = 0"
| "py_max (x # xs) = foldl (\<lambda>m v. if v > m then v else m) x xs"

fun py_min :: "real list \<Rightarrow> real" where
  "py_min [] = 0"
| "py_min (x # xs) = foldl (\<lambda>m v. if v < m then v else m) x xs"

text \<open>
  \<^verbatim>\<open>round(x, 4)\<close>: the nearest multiple of \<open>1/10000\<close>, an exact tie going to the even
  neighbour.
\<close>

definition round_half_even :: "real \<Rightarrow> int" where
  "round_half_even x =
     (let f = \<lfloor>x\<rfloor>; r = x - of_int f
      in if r < 1/2 then f else if r > 1/2 then f + 1 else if even f then f else f + 1)"

definition round4 :: "real \<Rightarrow> real" where
  "round4 x = of_int (round_half_even (x * 10000)) / 10000"

text \<open>
  \<^verbatim>\<open>math.pow(x, y)\<close>. A negative base with a non-integral exponent and a zero base with
  a negative exponent raise \<^verbatim>\<open>ValueError\<close>; a result beyond the largest double raises
  \<^verbatim>\<open>OverflowError\<close>.
\<close>

definition DBL_MAX :: real where
  "DBL_MAX = (2 ^ 53 - 1) * 2 ^ 971"

definition is_integral :: "real \<Rightarrow> bool" where
  "is_integral y = (of_int \<lfloor>y\<rfloor> = y)"

definition real_pow :: "real \<Rightarrow> real \<Rightarrow> real" where
  "real_pow x y =
     (if x > 0 then x powr y
      else if x = 0 then (if y = 0 then 1 else 0)
      else x powi \<lfloor>y\<rfloor>)"

definition math_pow :: "real \<Rightarrow> real \<Rightarrow> error + real" where
  "math_pow x y =
     (if x = 0 \<and> y < 0 then Inl ValueError
      else if x < 0 \<and> \<not> is_integral y then Inl ValueError
      else if \<bar>real_pow x y\<bar> > DBL_MAX then Inl OverflowError
      else Inr (real_pow x y))"

text \<open>
  \<^verbatim>\<open>sorted(results, key=lambda x: x['score'], reverse=True)\<close>: a stable sort, descending
  by the key.
\<close>

definition py_sorted_reverse :: "('a \<Rightarrow> real) \<Rightarrow> 'a list \<Rightarrow> 'a list" where
  "py_sorted_reverse key xs = sort_key (\<lambda>x. - key x) xs"

text \<open>A list comprehension or loop whose body can raise stops at the first exception.\<close>

fun collect :: "('a \<Rightarrow> error + 'b) \<Rightarrow> 'a list \<Rightarrow> error + 'b list" where
  "collect f [] = Inr []"
| "collect f (x # xs) =
     (case f x of
        Inl e \<Rightarrow> Inl e
      | Inr y \<Rightarrow> (case collect f xs of Inl e \<Rightarrow> Inl e | Inr ys \<Rightarrow> Inr (y # ys)))"

subsection \<open>\<^verbatim>\<open>calculate_saw\<close>\<close>

type_synonym matrix = "int \<rightharpoonup> (string \<rightharpoonup> real)"

record saw_result =
  saw_location :: string
  saw_score :: real
  saw_details :: "string \<rightharpoonup> real"

text \<open>The two branches of lines 260 to 263.\<close>

definition normalize :: "criterion \<Rightarrow> real \<Rightarrow> real \<Rightarrow> real \<Rightarrow> real" where
  "normalize crit max_value min_value v =
     (if crit_type crit = ''benefit''
      then (if max_value > 0 then v / max_value else 0)
      else (if min_value > 0 \<and> v > 0 then min_value / v else 0))"

text \<open>The body of the inner loop over the locations, lines 252 to 263.\<close>

definition saw_loc_step :: "db \<Rightarrow> criterion \<Rightarrow> real \<Rightarrow> real \<Rightarrow> location \<Rightarrow> matrix \<Rightarrow> matrix" where
  "saw_loc_step d crit max_value min_value loc nm =
     (let v = fetch_value d (loc_id loc) (crit_id crit);
          row = (case nm (loc_id loc) of None \<Rightarrow> Map.empty | Some r \<Rightarrow> r)
      in nm(loc_id loc \<mapsto> row(crit_id crit \<mapsto> normalize crit max_value min_value v)))"

text \<open>
  Lines 241 to 249: the stored values of the criterion, and their maximum and minimum;
  \<open>None\<close> when there is no stored value and the criterion is passed over.
\<close>

definition saw_bounds :: "db \<Rightarrow> criterion \<Rightarrow> (real \<times> real) option" where
  "saw_bounds d crit =
     (let vals = criterion_values d (crit_id crit)
      in if vals = [] then None else Some (py_max vals, py_min vals))"

text \<open>The body of the outer loop over the criteria, lines 240 to 263.\<close>

definition saw_crit_step :: "db \<Rightarrow> criterion \<Rightarrow> matrix \<Rightarrow> matrix" where
  "saw_crit_step d crit nm =
     (case saw_bounds d crit of
        None \<Rightarrow> nm
      | Some (max_value, min_value) \<Rightarrow>
          fold (saw_loc_step d crit max_value min_value) (locations d) nm)"

definition normalized_matrix :: "db \<Rightarrow> matrix" where
  "normalized_matrix d = fold (saw_crit_step d) (criteria d) Map.empty"

text \<open>\<^verbatim>\<open>normalized_matrix[loc['id']].get(criterion['id'], 0)\<close>.\<close>

definition get0 :: "(string \<rightharpoonup> real) \<Rightarrow> string \<Rightarrow> real" where
  "get0 row cid = (case row cid of None \<Rightarrow> 0 | Some v \<Rightarrow> v)"

text \<open>
  The body of the loop of lines 266 to 273. The criteria are not empty there, so the
  subscript \<^verbatim>\<open>normalized_matrix[loc['id']]\<close> is evaluated and raises \<^verbatim>\<open>KeyError\<close> when the
  location has no entry.
\<close>

definition saw_row :: "db \<Rightarrow> matrix \<Rightarrow> location \<Rightarrow> error + saw_result" where
  "saw_row d nm loc =
     (case nm (loc_id loc) of
        None \<Rightarrow> Inl KeyError
      | Some row \<Rightarrow>
          Inr \<lparr>saw_location = loc_name loc,
               saw_score = round4 (sum_list (map (\<lambda>crit. crit_weight crit * get0 row (crit_id crit))
                                      (criteria d))),
               saw_details = row\<rparr>)"

definition calculate_saw :: "db \<Rightarrow> error + saw_result list" where
  "calculate_saw d =
     (if locations d = [] \<or> criteria d = [] then Inr []
      else case collect (saw_row d (normalized_matrix d)) (locations d) of
             Inl e \<Rightarrow> Inl e
           | Inr results \<Rightarrow> Inr (py_sorted_reverse saw_score results))"

subsection \<open>\<^verbatim>\<open>calculate_wp\<close>\<close>

record wp_result =
  wp_location :: string
  wp_score :: real
  wp_s :: real

text \<open>Line 305.\<close>

definition signed_weight :: "criterion \<Rightarrow> real" where
  "signed_weight crit = (if crit_type crit = ''cost'' then - crit_weight crit else crit_weight crit)"

text \<open>The inner loop of lines 296 to 306, with the accumulator \<^verbatim>\<open>s\<close>.\<close>

fun wp_product :: "db \<Rightarrow> location \<Rightarrow> criterion list \<Rightarrow> real \<Rightarrow> error + real" where
  "wp_product d loc [] s = Inr s"
| "wp_product d loc (crit # rest) s =
     (let v = fetch_value d (loc_id loc) (crit_id crit)
      in if v = 0 then wp_product d loc rest s
         else case math_pow v (signed_weight crit) of
                Inl e \<Rightarrow> Inl e
              | Inr p \<Rightarrow> wp_product d loc rest (s * p))"

text \<open>The body of the outer loop, lines 295 to 308: the accumulator starts at 1.\<close>

definition wp_s_value :: "db \<Rightarrow> location \<Rightarrow> error + (string \<times> real)" where
  "wp_s_value d loc =
     (case wp_product d loc (criteria d) 1 of
        Inl e \<Rightarrow> Inl e
      | Inr s \<Rightarrow> Inr (loc_name loc, s))"

text \<open>Lines 312 to 316.\<close>

definition wp_row :: "real \<Rightarrow> string \<times> real \<Rightarrow> wp_result" where
  "wp_row total_s item =
     \<lparr>wp_location = fst item,
      wp_score = (if total_s > 0 then round4 (snd item / total_s) else 0),
      wp_s = snd item\<rparr>"

definition calculate_wp :: "db \<Rightarrow> error + wp_result list" where
  "calculate_wp d =
     (if locations d = [] \<or> criteria d = [] then Inr []
      else case collect (wp_s_value d) (locations d) of
             Inl e \<Rightarrow> Inl e
           | Inr s_values \<Rightarrow>
               (let total_s = sum_list (map snd s_values)
                in Inr (py_sorted_reverse wp_score (map (wp_row total_s) s_values))))"

subsection \<open>The scores as floats\<close>

text \<open>
  A Python float is a double, one of the two infinities, or nan. The products, the
  quotients and the sums that lead to a reported score are taken in this arithmetic, not
  over the reals: they are rounded to a double at every step, they overflow to an infinity
  without raising, and what they give exactly depends on the platform. The operations are
  therefore parameters of the definitions of this subsection, and what is proved of the
  definitions holds for every choice of them, the operations of the doubles among them.
\<close>

datatype pyfloat = Fin real | PInf | NInf | NaN

record arith =
  fmul :: "pyfloat \<Rightarrow> pyfloat \<Rightarrow> pyfloat"
  fdiv :: "pyfloat \<Rightarrow> pyfloat \<Rightarrow> pyfloat"
  fsum :: "pyfloat list \<Rightarrow> pyfloat"

text \<open>\<^verbatim>\<open>x > 0\<close>: false of nan.\<close>

fun pos :: "pyfloat \<Rightarrow> bool" where
  "pos (Fin x) = (0 < x)"
| "pos PInf = True"
| "pos NInf = False"
| "pos NaN = False"

fun fin_val :: "pyfloat \<Rightarrow> real" where
  "fin_val (Fin x) = x"
| "fin_val PInf = 0"
| "fin_val NInf = 0"
| "fin_val NaN = 0"

text \<open>
  \<^verbatim>\<open>round(x, 4)\<close> on a float. A double is rounded on its exact value, to the nearest
  multiple of \<open>1/10000\<close>, a tie going to the even neighbour; the double that Python returns
  is the one nearest to that decimal, which prints as the decimal, and the model holds the
  decimal. An infinity and nan are returned as they are.
\<close>

fun py_round4 :: "pyfloat \<Rightarrow> pyfloat" where
  "py_round4 (Fin x) = Fin (round4 x)"
| "py_round4 PInf = PInf"
| "py_round4 NInf = NInf"
| "py_round4 NaN = NaN"

type_synonym matrix_fp = "int \<rightharpoonup> (string \<rightharpoonup> pyfloat)"

record saw_result_fp =
  fp_location :: string
  fp_score :: pyfloat
  fp_details :: "string \<rightharpoonup> pyfloat"

text \<open>\<^verbatim>\<open>normalized_matrix[loc['id']].get(criterion['id'], 0)\<close>.\<close>

definition get0_fp :: "(string \<rightharpoonup> pyfloat) \<Rightarrow> string \<Rightarrow> pyfloat" where
  "get0_fp row cid = (case row cid of None \<Rightarrow> Fin 0 | Some v \<Rightarrow> v)"

text \<open>
  The body of the loop of lines 266 to 273, over the floats: the matrix that lines 239
  to 263 have built is an argument.
\<close>

definition saw_row_fp :: "arith \<Rightarrow> criterion list \<Rightarrow> matrix_fp \<Rightarrow> location \<Rightarrow> error + saw_result_fp" where
  "saw_row_fp ar cs nm loc =
     (case nm (loc_id loc) of
        None \<Rightarrow> Inl KeyError
      | Some row \<Rightarrow>
          Inr \<lparr>fp_location = loc_name loc,
               fp_score = py_round4 (fsum ar (map (\<lambda>crit. fmul ar (Fin (crit_weight crit))
                                                                  (get0_fp row (crit_id crit))) cs)),
               fp_details = row\<rparr>)"

text \<open>Lines 265 to 273: the list \<^verbatim>\<open>results\<close> before it is sorted.\<close>

definition saw_results_fp :: "arith \<Rightarrow> criterion list \<Rightarrow> matrix_fp \<Rightarrow> location list \<Rightarrow> error + saw_result_fp list" where
  "saw_results_fp ar cs nm ls = collect (saw_row_fp ar cs nm) ls"

record wp_result_fp =
  wfp_location :: string
  wfp_score :: pyfloat
  wfp_s :: pyfloat

text \<open>
  Lines 310 to 316, over the floats: the list \<^verbatim>\<open>s_values\<close> that lines 293 to 308 have
  built is the argument, and the result is the list \<^verbatim>\<open>results\<close> before it is sorted.
\<close>

definition wp_results_fp :: "arith \<Rightarrow> (string \<times> pyfloat) list \<Rightarrow> wp_result_fp list" where
  "wp_results_fp ar s_values =
     (let total_s = fsum ar (map snd s_values)
      in map (\<lambda>item. \<lparr>wfp_location = fst item,
                       wfp_score = (if pos total_s then py_round4 (fdiv ar (snd item) total_s)
                                    else Fin 0),
                       wfp_s = snd item\<rparr>) s_values)"

text \<open>
  One choice of the operations, for the examples: the exact result, an infinity when it
  is beyond the largest double, and the rules of the doubles for the infinities and nan.
  The sign of a zero is not kept, and a quotient by zero, which Python raises on and the
  endpoints never take, is nan.
\<close>

definition ovf :: "real \<Rightarrow> pyfloat" where
  "ovf x = (if x > DBL_MAX then PInf else if x < - DBL_MAX then NInf else Fin x)"

fun ideal_add :: "pyfloat \<Rightarrow> pyfloat \<Rightarrow> pyfloat" where
  "ideal_add (Fin a) (Fin b) = ovf (a + b)"
| "ideal_add NaN y = NaN"
| "ideal_add x NaN = NaN"
| "ideal_add PInf NInf = NaN"
| "ideal_add NInf PInf = NaN"
| "ideal_add PInf y = PInf"
| "ideal_add x PInf = PInf"
| "ideal_add NInf y = NInf"
| "ideal_add x NInf = NInf"

fun ideal_mul :: "pyfloat \<Rightarrow> pyfloat \<Rightarrow> pyfloat" where
  "ideal_mul (Fin a) (Fin b) = ovf (a * b)"
| "ideal_mul NaN y = NaN"
| "ideal_mul x NaN = NaN"
| "ideal_mul PInf (Fin b) = (if b > 0 then PInf else if b < 0 then NInf else NaN)"
| "ideal_mul NInf (Fin b) = (if b > 0 then NInf else if b < 0 then PInf else NaN)"
| "ideal_mul (Fin a) PInf = (if a > 0 then PInf else if a < 0 then NInf else NaN)"
| "ideal_mul (Fin a) NInf = (if a > 0 then NInf else if a < 0 then PInf else NaN)"
| "ideal_mul PInf PInf = PInf"
| "ideal_mul PInf NInf = NInf"
| "ideal_mul NInf PInf = NInf"
| "ideal_mul NInf NInf = PInf"

fun ideal_div :: "pyfloat \<Rightarrow> pyfloat \<Rightarrow> pyfloat" where
  "ideal_div (Fin a) (Fin b) = (if b = 0 then NaN else ovf (a / b))"
| "ideal_div NaN y = NaN"
| "ideal_div x NaN = NaN"
| "ideal_div (Fin a) PInf = Fin 0"
| "ideal_div (Fin a) NInf = Fin 0"
| "ideal_div PInf (Fin b) = (if b > 0 then PInf else if b < 0 then NInf else NaN)"
| "ideal_div NInf (Fin b) = (if b > 0 then NInf else if b < 0 then PInf else NaN)"
| "ideal_div PInf PInf = NaN"
| "ideal_div PInf NInf = NaN"
| "ideal_div NInf PInf = NaN"
| "ideal_div NInf NInf = NaN"

definition ideal_arith :: arith where
  "ideal_arith = \<lparr>fmul = ideal_mul, fdiv = ideal_div, fsum = foldl ideal_add (Fin 0)\<rparr>"

subsection \<open>Closed forms used to state the properties\<close>

text \<open>The cell of the matrix at a location id and a criterion id, when there is one.\<close>

definition entry :: "matrix \<Rightarrow> int \<Rightarrow> string \<Rightarrow> real option" where
  "entry nm lid cid = (case nm lid of None \<Rightarrow> None | Some row \<Rightarrow> row cid)"

text \<open>
  The value matrix of the specification: \<open>value(l,c)\<close> for every location, and the bounds
  the specification asks for, the maximum and minimum of that column over all locations.
\<close>

definition value_column :: "db \<Rightarrow> criterion \<Rightarrow> real list" where
  "value_column d crit = map (\<lambda>l. fetch_value d (loc_id l) (crit_id crit)) (locations d)"

definition spec_bounds :: "db \<Rightarrow> criterion \<Rightarrow> real \<times> real" where
  "spec_bounds d crit = (Max (set (value_column d crit)), Min (set (value_column d crit)))"

text \<open>
  The table constraints of \<^verbatim>\<open>init_db\<close> that make the stored column and the value column
  the same: the primary key of \<^verbatim>\<open>location_criteria\<close>, every stored row of the criterion
  belonging to a location, and every location having a stored row.
\<close>

definition fully_valued :: "db \<Rightarrow> criterion \<Rightarrow> bool" where
  "fully_valued d crit \<longleftrightarrow>
     distinct (map (\<lambda>r. (lc_location_id r, lc_criteria_id r)) (location_criteria d)) \<and>
     (\<forall>r\<in>set (location_criteria d).
        lc_criteria_id r = crit_id crit \<longrightarrow> lc_location_id r \<in> loc_id ` set (locations d)) \<and>
     (\<forall>l\<in>set (locations d).
        \<exists>r\<in>set (location_criteria d).
          lc_location_id r = loc_id l \<and> lc_criteria_id r = crit_id crit)"

text \<open>
  The raw score \<open>S(l)\<close> of the specification: the product, over the criteria whose value
  is not zero, of the value raised to the signed weight.
\<close>

definition S_spec :: "db \<Rightarrow> location \<Rightarrow> real" where
  "S_spec d loc =
     prod_list (map (\<lambda>crit. real_pow (fetch_value d (loc_id loc) (crit_id crit)) (signed_weight crit))
                    (filter (\<lambda>crit. fetch_value d (loc_id loc) (crit_id crit) \<noteq> 0) (criteria d)))"

text \<open>The criteria at which \<^verbatim>\<open>math.pow\<close> raises for a location.\<close>

definition wp_raises :: "db \<Rightarrow> location \<Rightarrow> criterion \<Rightarrow> bool" where
  "wp_raises d loc crit \<longleftrightarrow>
     fetch_value d (loc_id loc) (crit_id crit) \<noteq> 0 \<and>
     isl (math_pow (fetch_value d (loc_id loc) (crit_id crit)) (signed_weight crit))"

text \<open>The same tables with the type of every criterion rewritten.\<close>

definition with_types :: "(string \<Rightarrow> string) \<Rightarrow> db \<Rightarrow> db" where
  "with_types f d = d\<lparr>criteria := map (\<lambda>c. c\<lparr>crit_type := f (crit_type c)\<rparr>) (criteria d)\<rparr>"

definition as_cost :: "string \<Rightarrow> string" where
  "as_cost t = (if t = ''benefit'' then ''benefit'' else ''cost'')"

definition as_benefit :: "string \<Rightarrow> string" where
  "as_benefit t = (if t = ''cost'' then ''cost'' else ''benefit'')"

text \<open>
  The sum of the specification for a row of the matrix: the sum over the criteria of the
  weight times the normalized value, which is the cell of the criterion, or 0 when the
  row has none.
\<close>

definition score_sum_spec :: "arith \<Rightarrow> criterion list \<Rightarrow> (string \<rightharpoonup> pyfloat) \<Rightarrow> pyfloat" where
  "score_sum_spec ar cs row =
     fsum ar (map (\<lambda>c. fmul ar (Fin (crit_weight c))
                              (case row (crit_id c) of None \<Rightarrow> Fin 0 | Some n \<Rightarrow> n)) cs)"

subsection \<open>Example tables\<close>

definition mk_loc :: "int \<Rightarrow> string \<Rightarrow> location" where
  "mk_loc i n = \<lparr>loc_id = i, loc_name = n, loc_address = [], loc_latitude = 0, loc_longitude = 0\<rparr>"

definition mk_crit :: "string \<Rightarrow> real \<Rightarrow> string \<Rightarrow> criterion" where
  "mk_crit i w t = \<lparr>crit_id = i, crit_name = i, crit_weight = w, crit_type = t\<rparr>"

definition mk_lc :: "int \<Rightarrow> string \<Rightarrow> real \<Rightarrow> location_criterion" where
  "mk_lc l c v = \<lparr>lc_location_id = l, lc_criteria_id = c, lc_value = v\<rparr>"

text \<open>The scenario of the specification: A has 10 and B has 5 on one criterion of weight 1.\<close>

definition ex_scenario :: "string \<Rightarrow> db" where
  "ex_scenario t =
     \<lparr>locations = [mk_loc 1 ''A'', mk_loc 2 ''B''],
      criteria = [mk_crit ''c1'' 1 t],
      location_criteria = [mk_lc 1 ''c1'' 10, mk_lc 2 ''c1'' 5]\<rparr>"

text \<open>B has no stored value.\<close>

definition ex_missing :: "string \<Rightarrow> db" where
  "ex_missing t =
     \<lparr>locations = [mk_loc 1 ''A'', mk_loc 2 ''B''],
      criteria = [mk_crit ''c1'' 1 t],
      location_criteria = [mk_lc 1 ''c1'' 10]\<rparr>"

text \<open>Seven locations and no stored value at all.\<close>

definition ex_seven :: db where
  "ex_seven =
     \<lparr>locations = [mk_loc 1 ''A'', mk_loc 2 ''B'', mk_loc 3 ''C'', mk_loc 4 ''D'',
                   mk_loc 5 ''E'', mk_loc 6 ''F'', mk_loc 7 ''G''],
      criteria = [mk_crit ''c1'' 1 ''benefit''],
      location_criteria = []\<rparr>"

text \<open>One location with the value \<open>v\<close> on one criterion of weight \<open>w\<close>.\<close>

definition ex_single :: "real \<Rightarrow> real \<Rightarrow> string \<Rightarrow> db" where
  "ex_single v w t =
     \<lparr>locations = [mk_loc 1 ''A''],
      criteria = [mk_crit ''c1'' w t],
      location_criteria = [mk_lc 1 ''c1'' v]\<rparr>"

text \<open>One location, one criterion, nothing stored.\<close>

definition ex_unvalued :: db where
  "ex_unvalued =
     \<lparr>locations = [mk_loc 1 ''A''],
      criteria = [mk_crit ''c1'' 1 ''benefit''],
      location_criteria = []\<rparr>"

text \<open>A negative raw value on a benefit criterion.\<close>

definition ex_negative :: db where
  "ex_negative =
     \<lparr>locations = [mk_loc 1 ''A'', mk_loc 2 ''B''],
      criteria = [mk_crit ''c1'' 1 ''benefit''],
      location_criteria = [mk_lc 1 ''c1'' 10, mk_lc 2 ''c1'' (- 5)]\<rparr>"

text \<open>Two scores that differ before the rounding and are equal after it.\<close>

definition ex_tie :: db where
  "ex_tie =
     \<lparr>locations = [mk_loc 1 ''A'', mk_loc 2 ''B'', mk_loc 3 ''C''],
      criteria = [mk_crit ''c1'' 1 ''benefit''],
      location_criteria = [mk_lc 1 ''c1'' 50000, mk_lc 2 ''c1'' 99999, mk_lc 3 ''c1'' 100000]\<rparr>"

text \<open>A matrix with one row, and three criteria of which the row has two.\<close>

definition ex_cs_fp :: "criterion list" where
  "ex_cs_fp = [mk_crit ''c1'' (1/3) ''benefit'', mk_crit ''c2'' (1/7) ''cost'', mk_crit ''c3'' 5 ''benefit'']"

definition ex_nm_fp :: matrix_fp where
  "ex_nm_fp = [1 \<mapsto> [''c1'' \<mapsto> Fin 1, ''c2'' \<mapsto> Fin (1/2)]]"

text \<open>
  Lists of raw scores: seven locations without a value, two locations at the largest
  double, and the scenario of the specification; and the tables that give the second.
\<close>

definition ex_sv_seven :: "(string \<times> pyfloat) list" where
  "ex_sv_seven = [(''A'', Fin 1), (''B'', Fin 1), (''C'', Fin 1), (''D'', Fin 1),
                  (''E'', Fin 1), (''F'', Fin 1), (''G'', Fin 1)]"

definition ex_sv_big :: "(string \<times> pyfloat) list" where
  "ex_sv_big = [(''A'', Fin DBL_MAX), (''B'', Fin DBL_MAX)]"

definition ex_sv_scenario :: "(string \<times> pyfloat) list" where
  "ex_sv_scenario = [(''A'', Fin 10), (''B'', Fin 5)]"

definition ex_big :: db where
  "ex_big =
     \<lparr>locations = [mk_loc 1 ''A'', mk_loc 2 ''B''],
      criteria = [mk_crit ''c1'' 1 ''benefit''],
      location_criteria = [mk_lc 1 ''c1'' DBL_MAX, mk_lc 2 ''c1'' DBL_MAX]\<rparr>"

lemmas ex_defs =
  ex_scenario_def ex_missing_def ex_seven_def ex_single_def ex_unvalued_def ex_negative_def
  ex_tie_def mk_loc_def mk_crit_def mk_lc_def

lemmas eval_defs =
  fetch_value_def criterion_values_def saw_bounds_def normalized_matrix_def saw_crit_step_def
  saw_loc_step_def normalize_def calculate_saw_def saw_row_def get0_def round4_def
  round_half_even_def py_sorted_reverse_def Let_def calculate_wp_def wp_s_value_def wp_row_def
  signed_weight_def math_pow_def real_pow_def DBL_MAX_def is_integral_def

lemmas fp_defs =
  saw_results_fp_def saw_row_fp_def get0_fp_def wp_results_fp_def ideal_arith_def ovf_def
  score_sum_spec_def ex_cs_fp_def ex_nm_fp_def

lemmas fp_ex_defs = ex_sv_seven_def ex_sv_big_def ex_sv_scenario_def ex_big_def

section \<open>Lemmas\<close>

subsection \<open>The built-ins\<close>

lemma foldl_max_eq: "foldl (\<lambda>m v. if v > m then v else m) x xs = Max (insert (x::real) (set xs))"
proof (induction xs arbitrary: x)
  case Nil
  then show ?case by simp
next
  case (Cons y ys)
  have "Max (insert (if x < y then y else x) (set ys)) = Max (insert x (insert y (set ys)))"
    by (cases "set ys = {}") (auto simp: max_def)
  with Cons show ?case by simp
qed

lemma foldl_min_eq: "foldl (\<lambda>m v. if v < m then v else m) x xs = Min (insert (x::real) (set xs))"
proof (induction xs arbitrary: x)
  case Nil
  then show ?case by simp
next
  case (Cons y ys)
  have "Min (insert (if y < x then y else x) (set ys)) = Min (insert x (insert y (set ys)))"
    by (cases "set ys = {}") (auto simp: min_def)
  with Cons show ?case by simp
qed

lemma py_max_eq: "xs \<noteq> [] \<Longrightarrow> py_max xs = Max (set xs)"
  by (cases xs) (simp_all add: foldl_max_eq)

lemma py_min_eq: "xs \<noteq> [] \<Longrightarrow> py_min xs = Min (set xs)"
  by (cases xs) (simp_all add: foldl_min_eq)

lemma collect_Inr_iff: "collect f xs = Inr ys \<longleftrightarrow> map f xs = map Inr ys"
proof (induction xs arbitrary: ys)
  case Nil
  then show ?case by auto
next
  case (Cons x xs)
  show ?case
  proof (cases "f x")
    case (Inl e)
    then show ?thesis by (cases ys) auto
  next
    case fx: (Inr y)
    show ?thesis
    proof (cases "collect f xs")
      case (Inl e)
      with Cons.IH have "\<And>zs. map f xs \<noteq> map Inr zs" by simp
      with Inl fx show ?thesis by (cases ys) auto
    next
      case (Inr zs)
      with Cons.IH [of zs] have "map f xs = map Inr zs" by simp
      with Inr fx show ?thesis by (cases ys) (auto simp: inj_map_eq_map [OF inj_Inr])
    qed
  qed
qed

lemma collect_total: "(\<And>x. x \<in> set xs \<Longrightarrow> \<exists>y. f x = Inr y) \<Longrightarrow> \<exists>ys. collect f xs = Inr ys"
  by (induction xs) (fastforce split: sum.splits)+

lemma collect_Inl: "x \<in> set xs \<Longrightarrow> f x = Inl e \<Longrightarrow> \<exists>e'. collect f xs = Inl e'"
  by (induction xs) (auto split: sum.splits)

lemma mset_py_sorted_reverse: "mset (py_sorted_reverse key xs) = mset xs"
  by (simp add: py_sorted_reverse_def)



lemma round_half_even_near: "\<bar>of_int (round_half_even x) - x\<bar> \<le> 1/2"
  unfolding round_half_even_def Let_def by (auto simp: abs_if) linarith+

lemma round4_near: "\<bar>round4 x - x\<bar> \<le> 1/20000"
proof -
  have "\<bar>of_int (round_half_even (x * 10000)) - x * 10000\<bar> \<le> 1/2"
    by (rule round_half_even_near)
  then show ?thesis unfolding round4_def by (simp add: field_simps abs_if split: if_splits)
qed

subsection \<open>The normalized matrix\<close>

lemma entry_loc_step:
  "entry (saw_loc_step d c mx mn loc nm) lid cid =
     (if lid = loc_id loc \<and> cid = crit_id c
      then Some (normalize c mx mn (fetch_value d lid cid))
      else entry nm lid cid)"
  by (auto simp: entry_def saw_loc_step_def Let_def split: option.splits)

lemma entry_loc_fold:
  "entry (fold (saw_loc_step d c mx mn) locs nm) lid cid =
     (if lid \<in> loc_id ` set locs \<and> cid = crit_id c
      then Some (normalize c mx mn (fetch_value d lid cid))
      else entry nm lid cid)"
  by (induction locs arbitrary: nm) (auto simp: entry_loc_step)

lemma none_loc_step:
  "saw_loc_step d c mx mn loc nm lid = None \<longleftrightarrow> lid \<noteq> loc_id loc \<and> nm lid = None"
  by (auto simp: saw_loc_step_def Let_def)

lemma none_loc_fold:
  "fold (saw_loc_step d c mx mn) locs nm lid = None \<longleftrightarrow> lid \<notin> loc_id ` set locs \<and> nm lid = None"
  by (induction locs arbitrary: nm) (auto simp: none_loc_step)

lemma entry_crit_step:
  "entry (saw_crit_step d c nm) lid cid =
     (case saw_bounds d c of
        None \<Rightarrow> entry nm lid cid
      | Some (mx, mn) \<Rightarrow>
          if lid \<in> loc_id ` set (locations d) \<and> cid = crit_id c
          then Some (normalize c mx mn (fetch_value d lid cid))
          else entry nm lid cid)"
  by (auto simp: saw_crit_step_def entry_loc_fold split: option.splits)

lemma none_crit_step:
  "saw_crit_step d c nm lid = None \<longleftrightarrow>
     nm lid = None \<and> (saw_bounds d c = None \<or> lid \<notin> loc_id ` set (locations d))"
  by (auto simp: saw_crit_step_def none_loc_fold split: option.splits)

lemma none_crit_fold:
  "fold (saw_crit_step d) cs nm lid = None \<longleftrightarrow>
     nm lid = None \<and> ((\<forall>c\<in>set cs. saw_bounds d c = None) \<or> lid \<notin> loc_id ` set (locations d))"
  by (induction cs arbitrary: nm) (auto simp: none_crit_step)

lemma entry_crit_fold_other:
  "cid \<notin> crit_id ` set cs \<Longrightarrow> entry (fold (saw_crit_step d) cs nm) lid cid = entry nm lid cid"
  by (induction cs arbitrary: nm) (auto simp: entry_crit_step split: option.splits)

lemma entry_crit_fold:
  assumes "distinct (map crit_id cs)" "c \<in> set cs" "lid \<in> loc_id ` set (locations d)"
  shows "entry (fold (saw_crit_step d) cs nm) lid (crit_id c) =
     (case saw_bounds d c of
        None \<Rightarrow> entry nm lid (crit_id c)
      | Some (mx, mn) \<Rightarrow> Some (normalize c mx mn (fetch_value d lid (crit_id c))))"
  using assms
proof (induction cs arbitrary: nm)
  case Nil
  then show ?case by simp
next
  case (Cons a cs)
  show ?case
  proof (cases "c = a")
    case True
    with Cons.prems have "crit_id c \<notin> crit_id ` set cs" by auto
    then show ?thesis using True Cons.prems(3)
      by (auto simp: entry_crit_fold_other entry_crit_step split: option.splits)
  next
    case False
    with Cons.prems have in_cs: "c \<in> set cs" and ne: "crit_id a \<noteq> crit_id c" and d: "distinct (map crit_id cs)"
      by auto
    have "entry (saw_crit_step d a nm) lid (crit_id c) = entry nm lid (crit_id c)"
      using ne by (auto simp: entry_crit_step split: option.splits)
    then show ?thesis using Cons.IH [OF d in_cs Cons.prems(3), of "saw_crit_step d a nm"]
      by (simp split: option.splits)
  qed
qed

subsection \<open>Fields of the result records\<close>







lemma map_Inr_fields:
  assumes "map Inr ys = map f xs" and "\<And>x y. f x = Inr y \<Longrightarrow> g y = h x"
  shows "map g ys = map h xs"
proof -
  have len: "length ys = length xs" using assms(1) by (metis length_map)
  show ?thesis
  proof (rule nth_equalityI)
    show "length (map g ys) = length (map h xs)" using len by simp
  next
    fix i assume "i < length (map g ys)"
    then have i: "i < length ys" by simp
    then have "Inr (ys ! i) = f (xs ! i)"
      using assms(1) len by (metis nth_map)
    then have "g (ys ! i) = h (xs ! i)" using assms(2) by simp
    then show "map g ys ! i = map h xs ! i" using i len by simp
  qed
qed


subsection \<open>The loop of the weighted product\<close>

lemma math_pow_Inr: "math_pow x y = Inr p \<Longrightarrow> p = real_pow x y"
  by (auto simp: math_pow_def split: if_splits)

lemma wp_product_Inr:
  "wp_product d loc cs s = Inr r \<Longrightarrow>
     (\<forall>c\<in>set cs. \<not> wp_raises d loc c) \<and>
     r = s * prod_list (map (\<lambda>crit. real_pow (fetch_value d (loc_id loc) (crit_id crit)) (signed_weight crit))
                        (filter (\<lambda>crit. fetch_value d (loc_id loc) (crit_id crit) \<noteq> 0) cs))"
proof (induction cs arbitrary: s)
  case Nil
  then show ?case by simp
next
  case (Cons c cs)
  show ?case
  proof (cases "fetch_value d (loc_id loc) (crit_id c) = 0")
    case True
    with Cons.prems have "wp_product d loc cs s = Inr r" by simp
    from Cons.IH [OF this] True show ?thesis by (simp add: wp_raises_def)
  next
    case False
    with Cons.prems obtain p where
      p: "math_pow (fetch_value d (loc_id loc) (crit_id c)) (signed_weight c) = Inr p" and
      rest: "wp_product d loc cs (s * p) = Inr r"
      by (auto split: sum.splits)
    from Cons.IH [OF rest] math_pow_Inr [OF p] p False show ?thesis
      by (simp add: wp_raises_def mult.assoc)
  qed
qed

lemma wp_product_total:
  "\<forall>c\<in>set cs. \<not> wp_raises d loc c \<Longrightarrow> \<exists>r. wp_product d loc cs s = Inr r"
proof (induction cs arbitrary: s)
  case Nil
  then show ?case by simp
next
  case (Cons c cs)
  show ?case
  proof (cases "fetch_value d (loc_id loc) (crit_id c) = 0")
    case True
    with Cons show ?thesis by simp
  next
    case False
    with Cons.prems obtain p where
      "math_pow (fetch_value d (loc_id loc) (crit_id c)) (signed_weight c) = Inr p"
      by (cases "math_pow (fetch_value d (loc_id loc) (crit_id c)) (signed_weight c)")
         (auto simp: wp_raises_def)
    with Cons False show ?thesis by simp
  qed
qed

lemma wp_s_value_Inr_iff:
  "wp_s_value d loc = Inr x \<longleftrightarrow>
     (\<forall>c\<in>set (criteria d). \<not> wp_raises d loc c) \<and> x = (loc_name loc, S_spec d loc)"
proof
  assume "wp_s_value d loc = Inr x"
  then obtain s where s: "wp_product d loc (criteria d) 1 = Inr s" and x: "x = (loc_name loc, s)"
    by (auto simp: wp_s_value_def split: sum.splits)
  from wp_product_Inr [OF s] x
  show "(\<forall>c\<in>set (criteria d). \<not> wp_raises d loc c) \<and> x = (loc_name loc, S_spec d loc)"
    by (simp add: S_spec_def)
next
  assume a: "(\<forall>c\<in>set (criteria d). \<not> wp_raises d loc c) \<and> x = (loc_name loc, S_spec d loc)"
  then obtain s where s: "wp_product d loc (criteria d) 1 = Inr s"
    using wp_product_total by blast
  from wp_product_Inr [OF s] a s show "wp_s_value d loc = Inr x"
    by (simp add: wp_s_value_def S_spec_def)
qed

subsection \<open>The records of the weighted product\<close>

lemma wp_s_values_eq:
  assumes "collect (wp_s_value d) (locations d) = Inr sv"
  shows "sv = map (\<lambda>l. (loc_name l, S_spec d l)) (locations d)"
proof -
  from assms have m: "map Inr sv = map (wp_s_value d) (locations d)"
    by (simp add: collect_Inr_iff)
  have "map id sv = map (\<lambda>l. (loc_name l, S_spec d l)) (locations d)"
    using map_Inr_fields [OF m, of id "\<lambda>l. (loc_name l, S_spec d l)"] wp_s_value_Inr_iff
    by simp
  then show ?thesis by simp
qed

lemma calculate_wp_Inr:
  assumes "locations d \<noteq> []" "criteria d \<noteq> []" "calculate_wp d = Inr out"
  shows "out = py_sorted_reverse wp_score
           (map (wp_row (sum_list (map (S_spec d) (locations d))))
                (map (\<lambda>l. (loc_name l, S_spec d l)) (locations d)))"
proof -
  from assms obtain sv where
    c: "collect (wp_s_value d) (locations d) = Inr sv" and
    out: "out = py_sorted_reverse wp_score (map (wp_row (sum_list (map snd sv))) sv)"
    by (auto simp: calculate_wp_def Let_def split: sum.splits)
  have sv: "sv = map (\<lambda>l. (loc_name l, S_spec d l)) (locations d)"
    using c by (rule wp_s_values_eq)
  have "map snd sv = map (S_spec d) (locations d)"
    unfolding sv by (simp add: comp_def)
  then have "out = py_sorted_reverse wp_score
      (map (wp_row (sum_list (map (S_spec d) (locations d)))) sv)"
    using out by simp
  then show ?thesis unfolding sv .
qed

lemma sum_list_divide: "sum_list (map (\<lambda>x. f x / (t::real)) xs) = sum_list (map f xs) / t"
  by (induction xs) (simp_all add: add_divide_distrib)

subsection \<open>The bounds and the rows of the matrix\<close>

lemma saw_bounds_eq:
  "saw_bounds d crit =
     (if criterion_values d (crit_id crit) = [] then None
      else Some (Max (set (criterion_values d (crit_id crit))),
                 Min (set (criterion_values d (crit_id crit)))))"
  by (simp add: saw_bounds_def Let_def py_max_eq py_min_eq)

lemma fetch_value_stored:
  "fetch_value d lid cid \<noteq> 0 \<Longrightarrow> fetch_value d lid cid \<in> set (criterion_values d cid)"
proof -
  assume a: "fetch_value d lid cid \<noteq> 0"
  then obtain r where
    f: "find (\<lambda>r. lc_location_id r = lid \<and> lc_criteria_id r = cid) (location_criteria d) = Some r"
    by (auto simp: fetch_value_def split: option.splits)
  then have "r \<in> set (location_criteria d) \<and> lc_criteria_id r = cid"
    by (auto simp: find_Some_iff)
  moreover have "fetch_value d lid cid = lc_value r" using f by (simp add: fetch_value_def)
  ultimately show ?thesis by (auto simp: criterion_values_def)
qed

lemma find_row_unique:
  assumes "distinct (map key rows)" "r \<in> set rows"
  shows "find (\<lambda>x. key x = key r) rows = Some r"
  using assms
proof (induction rows)
  case Nil
  then show ?case by simp
next
  case (Cons a rows)
  then show ?case by (cases "a = r") (auto simp: image_iff)
qed

lemma fetch_value_row:
  assumes "distinct (map (\<lambda>r. (lc_location_id r, lc_criteria_id r)) (location_criteria d))"
    and "r \<in> set (location_criteria d)"
  shows "fetch_value d (lc_location_id r) (lc_criteria_id r) = lc_value r"
proof -
  have "find (\<lambda>x. (lc_location_id x, lc_criteria_id x) = (lc_location_id r, lc_criteria_id r))
          (location_criteria d) = Some r"
    using assms by (rule find_row_unique)
  then show ?thesis by (simp add: fetch_value_def)
qed

lemma fully_valued_column:
  assumes "fully_valued d crit"
  shows "set (criterion_values d (crit_id crit)) = set (value_column d crit)"
proof (intro equalityI subsetI)
  fix v assume "v \<in> set (criterion_values d (crit_id crit))"
  then obtain r where r: "r \<in> set (location_criteria d)" "lc_criteria_id r = crit_id crit"
    "v = lc_value r"
    by (auto simp: criterion_values_def)
  with assms obtain l where l: "l \<in> set (locations d)" "lc_location_id r = loc_id l"
    by (auto simp: fully_valued_def)
  have "fetch_value d (lc_location_id r) (lc_criteria_id r) = lc_value r"
    using assms r(1) by (intro fetch_value_row) (simp_all add: fully_valued_def)
  then have "fetch_value d (loc_id l) (crit_id crit) = v" using r l by simp
  then show "v \<in> set (value_column d crit)" using l(1) by (auto simp: value_column_def)
next
  fix v assume "v \<in> set (value_column d crit)"
  then obtain l where l: "l \<in> set (locations d)" "v = fetch_value d (loc_id l) (crit_id crit)"
    by (auto simp: value_column_def)
  with assms obtain r where r: "r \<in> set (location_criteria d)" "lc_location_id r = loc_id l"
    "lc_criteria_id r = crit_id crit"
    by (auto simp: fully_valued_def)
  have "fetch_value d (lc_location_id r) (lc_criteria_id r) = lc_value r"
    using assms r(1) by (intro fetch_value_row) (simp_all add: fully_valued_def)
  then have "v = lc_value r" using r l by simp
  then show "v \<in> set (criterion_values d (crit_id crit))"
    using r by (auto simp: criterion_values_def)
qed

lemma entry_empty: "entry Map.empty lid cid = None"
  by (simp add: entry_def)

lemma nm_none:
  "normalized_matrix d lid = None \<longleftrightarrow>
     (\<forall>c\<in>set (criteria d). saw_bounds d c = None) \<or> lid \<notin> loc_id ` set (locations d)"
  by (simp add: normalized_matrix_def none_crit_fold)

lemma nm_entry:
  assumes "distinct (map crit_id (criteria d))" "c \<in> set (criteria d)" "loc \<in> set (locations d)"
  shows "entry (normalized_matrix d) (loc_id loc) (crit_id c) =
     (case saw_bounds d c of
        None \<Rightarrow> None
      | Some (mx, mn) \<Rightarrow> Some (normalize c mx mn (fetch_value d (loc_id loc) (crit_id c))))"
proof -
  have "loc_id loc \<in> loc_id ` set (locations d)" using assms(3) by simp
  from entry_crit_fold [OF assms(1,2) this, of Map.empty] show ?thesis
    by (simp add: normalized_matrix_def entry_empty split: option.splits)
qed

lemma calculate_saw_total:
  assumes "locations d = [] \<or> criteria d = [] \<or> (\<exists>c\<in>set (criteria d). saw_bounds d c \<noteq> None)"
  shows "\<exists>out. calculate_saw d = Inr out"
proof (cases "locations d = [] \<or> criteria d = []")
  case True
  then show ?thesis by (auto simp: calculate_saw_def)
next
  case False
  with assms have b: "\<exists>c\<in>set (criteria d). saw_bounds d c \<noteq> None" by simp
  have "\<exists>y. saw_row d (normalized_matrix d) x = Inr y" if "x \<in> set (locations d)" for x
  proof -
    have "normalized_matrix d (loc_id x) \<noteq> None"
      using b that by (simp add: nm_none)
    then show ?thesis by (auto simp: saw_row_def)
  qed
  then obtain ys where "collect (saw_row d (normalized_matrix d)) (locations d) = Inr ys"
    using collect_total by blast
  then show ?thesis using False by (simp add: calculate_saw_def)
qed

subsection \<open>Rewriting the types of the criteria\<close>

lemma with_types_tables:
  "locations (with_types f d) = locations d"
  "location_criteria (with_types f d) = location_criteria d"
  "criteria (with_types f d) = map (\<lambda>c. c\<lparr>crit_type := f (crit_type c)\<rparr>) (criteria d)"
  by (simp_all add: with_types_def)

lemma with_types_fetch: "fetch_value (with_types f d) lid cid = fetch_value d lid cid"
  by (simp add: fetch_value_def with_types_tables)

lemma with_types_bounds: "saw_bounds (with_types f d) (c\<lparr>crit_type := t\<rparr>) = saw_bounds d c"
  by (simp add: saw_bounds_def criterion_values_def with_types_tables)

lemma normalize_as_cost:
  "normalize (c\<lparr>crit_type := as_cost (crit_type c)\<rparr>) mx mn v = normalize c mx mn v"
  by (simp add: normalize_def as_cost_def)

lemma with_types_loc_step:
  "saw_loc_step (with_types f d) (c\<lparr>crit_type := as_cost (crit_type c)\<rparr>) mx mn loc nm =
   saw_loc_step d c mx mn loc nm"
  by (simp add: saw_loc_step_def with_types_fetch normalize_as_cost)

lemma with_types_crit_step:
  "saw_crit_step (with_types f d) (c\<lparr>crit_type := as_cost (crit_type c)\<rparr>) = saw_crit_step d c"
proof (rule ext)
  fix nm
  have "saw_loc_step (with_types f d) (c\<lparr>crit_type := as_cost (crit_type c)\<rparr>) mx mn =
        saw_loc_step d c mx mn" for mx mn
    by (rule ext, rule ext) (rule with_types_loc_step)
  then show "saw_crit_step (with_types f d) (c\<lparr>crit_type := as_cost (crit_type c)\<rparr>) nm =
             saw_crit_step d c nm"
    by (simp add: saw_crit_step_def with_types_bounds with_types_tables split: option.splits)
qed

lemma with_types_matrix: "normalized_matrix (with_types as_cost d) = normalized_matrix d"
proof -
  have "saw_crit_step (with_types as_cost d) \<circ> (\<lambda>c. c\<lparr>crit_type := as_cost (crit_type c)\<rparr>) =
        saw_crit_step d"
    by (rule ext) (simp add: with_types_crit_step)
  then show ?thesis
    by (simp add: normalized_matrix_def with_types_tables fold_map)
qed

lemma with_types_saw_row: "saw_row (with_types f d) nm loc = saw_row d nm loc"
  by (simp add: saw_row_def with_types_tables comp_def split: option.splits)

lemma with_types_saw: "calculate_saw (with_types as_cost d) = calculate_saw d"
proof -
  have "saw_row (with_types as_cost d) (normalized_matrix d) = saw_row d (normalized_matrix d)"
    by (rule ext) (rule with_types_saw_row)
  then show ?thesis
    by (simp add: calculate_saw_def with_types_matrix with_types_tables)
qed

lemma signed_weight_as_benefit:
  "signed_weight (c\<lparr>crit_type := as_benefit (crit_type c)\<rparr>) = signed_weight c"
  by (simp add: signed_weight_def as_benefit_def)

lemma with_types_wp_product:
  "wp_product (with_types f d) loc (map (\<lambda>c. c\<lparr>crit_type := as_benefit (crit_type c)\<rparr>) cs) s =
   wp_product d loc cs s"
  by (induction cs arbitrary: s)
     (simp_all add: with_types_fetch signed_weight_as_benefit Let_def split: sum.splits)

lemma with_types_wp: "calculate_wp (with_types as_benefit d) = calculate_wp d"
proof -
  have "wp_s_value (with_types as_benefit d) = wp_s_value d"
    by (rule ext) (simp add: wp_s_value_def with_types_tables with_types_wp_product)
  then show ?thesis
    by (simp add: calculate_wp_def with_types_tables)
qed

subsection \<open>Exceptions of the weighted product\<close>

lemma is_integral_minus: "is_integral (- y) = is_integral y"
proof -
  have "(\<exists>n::int. - y = of_int n) \<longleftrightarrow> (\<exists>n::int. y = of_int n)"
  proof
    assume "\<exists>n::int. - y = of_int n"
    then obtain n :: int where "- y = of_int n" by blast
    then have "y = of_int (- n)" by simp
    then show "\<exists>n::int. y = of_int n" by blast
  next
    assume "\<exists>n::int. y = of_int n"
    then obtain n :: int where "y = of_int n" by blast
    then have "- y = of_int (- n)" by simp
    then show "\<exists>n::int. - y = of_int n" by blast
  qed
  then show ?thesis by (simp add: is_integral_def)
qed

lemma is_integral_signed_weight: "is_integral (signed_weight c) = is_integral (crit_weight c)"
  by (simp add: signed_weight_def is_integral_minus)

lemma wp_raises_negative:
  "fetch_value d (loc_id l) (crit_id c) < 0 \<Longrightarrow> \<not> is_integral (crit_weight c) \<Longrightarrow> wp_raises d l c"
  by (simp add: wp_raises_def math_pow_def is_integral_signed_weight)

lemma calculate_wp_total:
  assumes "\<forall>l\<in>set (locations d). \<forall>c\<in>set (criteria d). \<not> wp_raises d l c"
  shows "\<exists>out. calculate_wp d = Inr out"
proof -
  have "\<exists>y. wp_s_value d x = Inr y" if "x \<in> set (locations d)" for x
    using assms that by (simp add: wp_s_value_Inr_iff)
  then obtain ys where "collect (wp_s_value d) (locations d) = Inr ys"
    using collect_total by blast
  then show ?thesis by (simp add: calculate_wp_def Let_def)
qed

lemma calculate_wp_raises:
  assumes "l \<in> set (locations d)" "c \<in> set (criteria d)" "wp_raises d l c"
  shows "\<exists>e. calculate_wp d = Inl e"
proof -
  have "wp_s_value d l \<noteq> Inr x" for x
    using assms(2,3) by (simp add: wp_s_value_Inr_iff) blast
  then obtain e where e: "wp_s_value d l = Inl e"
    by (cases "wp_s_value d l") blast+
  from collect_Inl [of l "locations d" "wp_s_value d" e, OF assms(1) e]
  obtain e' where "collect (wp_s_value d) (locations d) = Inl e'" ..
  moreover have "locations d \<noteq> []" "criteria d \<noteq> []" using assms(1,2) by auto
  ultimately show ?thesis by (simp add: calculate_wp_def)
qed

lemma wp_not_raises_defined:
  assumes "fetch_value d (loc_id l) (crit_id c) = 0 \<or>
     ((0 < fetch_value d (loc_id l) (crit_id c) \<or> is_integral (crit_weight c)) \<and>
      \<bar>real_pow (fetch_value d (loc_id l) (crit_id c)) (signed_weight c)\<bar> \<le> DBL_MAX)"
  shows "\<not> wp_raises d l c"
proof (cases "fetch_value d (loc_id l) (crit_id c) = 0")
  case True
  then show ?thesis by (simp add: wp_raises_def)
next
  case False
  with assms have
    a: "0 < fetch_value d (loc_id l) (crit_id c) \<or> is_integral (signed_weight c)" and
    b: "\<bar>real_pow (fetch_value d (loc_id l) (crit_id c)) (signed_weight c)\<bar> \<le> DBL_MAX"
    by (simp_all add: is_integral_signed_weight)
  from a have "\<not> (fetch_value d (loc_id l) (crit_id c) < 0 \<and> \<not> is_integral (signed_weight c))"
    by auto
  with False b show ?thesis by (simp add: wp_raises_def math_pow_def)
qed

lemma math_pow_Inl: "math_pow x y = Inl e \<Longrightarrow> e = ValueError \<or> e = OverflowError"
  by (auto simp: math_pow_def split: if_splits)

lemma collect_Inl_elem: "collect f xs = Inl e \<Longrightarrow> \<exists>x\<in>set xs. f x = Inl e"
  by (induction xs) (auto split: sum.splits)

lemma wp_product_Inl:
  "wp_product d loc cs s = Inl e \<Longrightarrow>
     \<exists>c\<in>set cs. math_pow (fetch_value d (loc_id loc) (crit_id c)) (signed_weight c) = Inl e"
proof (induction cs arbitrary: s)
  case Nil
  then show ?case by simp
next
  case (Cons c cs)
  show ?case
  proof (cases "fetch_value d (loc_id loc) (crit_id c) = 0")
    case True
    with Cons.prems have "wp_product d loc cs s = Inl e" by simp
    from Cons.IH [OF this] show ?thesis by auto
  next
    case False
    show ?thesis
    proof (cases "math_pow (fetch_value d (loc_id loc) (crit_id c)) (signed_weight c)")
      case (Inl e')
      with Cons.prems False have "e' = e" by simp
      with Inl show ?thesis by simp
    next
      case (Inr p)
      with Cons.prems False have "wp_product d loc cs (s * p) = Inl e" by simp
      from Cons.IH [OF this] show ?thesis by auto
    qed
  qed
qed

lemma calculate_wp_Inl:
  assumes "calculate_wp d = Inl e"
  shows "\<exists>l\<in>set (locations d). \<exists>c\<in>set (criteria d).
           math_pow (fetch_value d (loc_id l) (crit_id c)) (signed_weight c) = Inl e"
proof -
  from assms have "collect (wp_s_value d) (locations d) = Inl e"
    by (auto simp: calculate_wp_def Let_def split: if_splits sum.splits)
  then obtain l where l: "l \<in> set (locations d)" "wp_s_value d l = Inl e"
    using collect_Inl_elem by blast
  then have "wp_product d l (criteria d) 1 = Inl e"
    by (auto simp: wp_s_value_def split: sum.splits)
  from wp_product_Inl [OF this] l(1) show ?thesis by blast
qed

subsection \<open>Rounding a float\<close>

lemma round4_decimal: "\<exists>k::int. round4 x = of_int k / 10000 \<and> \<bar>of_int k / 10000 - x\<bar> \<le> 1/20000"
proof -
  have "round4 x = of_int (round_half_even (x * 10000)) / 10000"
    by (simp add: round4_def)
  moreover have "\<bar>round4 x - x\<bar> \<le> 1/20000" by (rule round4_near)
  ultimately show ?thesis by metis
qed

lemma py_round4_Fin:
  "y = Fin s \<Longrightarrow> \<exists>k::int. py_round4 y = Fin (of_int k / 10000) \<and> \<bar>of_int k / 10000 - s\<bar> \<le> 1/20000"
  using round4_decimal [of s] by auto




subsection \<open>The reported scores of the weighted product\<close>

lemma sum_round_quotients:
  assumes "\<forall>S\<in>set Ss. \<exists>q. g S = Fin q \<and> \<bar>q - S / c\<bar> \<le> \<delta>"
  shows "\<bar>sum_list (map (\<lambda>S. fin_val (py_round4 (g S))) Ss) - sum_list (map (\<lambda>S. S / c) Ss)\<bar>
           \<le> real (length Ss) * (1/20000 + \<delta>)"
  using assms
proof (induction Ss)
  case Nil
  then show ?case by simp
next
  case (Cons S Ss)
  then obtain q where q: "g S = Fin q" "\<bar>q - S / c\<bar> \<le> \<delta>" by auto
  have "\<bar>round4 q - q\<bar> \<le> 1/20000" by (rule round4_near)
  with q(2) have a: "\<bar>round4 q - S / c\<bar> \<le> 1/20000 + \<delta>" by linarith
  have b: "\<bar>sum_list (map (\<lambda>S. fin_val (py_round4 (g S))) Ss) - sum_list (map (\<lambda>S. S / c) Ss)\<bar>
           \<le> real (length Ss) * (1/20000 + \<delta>)"
    using Cons by simp
  have "\<bar>(round4 q - S / c) +
         (sum_list (map (\<lambda>S. fin_val (py_round4 (g S))) Ss) - sum_list (map (\<lambda>S. S / c) Ss))\<bar>
        \<le> (1/20000 + \<delta>) + real (length Ss) * (1/20000 + \<delta>)"
    using a b by linarith
  then show ?case using q(1) by (simp add: algebra_simps add_divide_distrib)
qed

lemma wp_results_fp_scores:
  "map wfp_score (wp_results_fp ar s_values) =
     map (\<lambda>s. if pos (fsum ar (map snd s_values))
               then py_round4 (fdiv ar s (fsum ar (map snd s_values))) else Fin 0)
         (map snd s_values)"
  by (simp add: wp_results_fp_def Let_def comp_def)

section \<open>The claims\<close>

subsection \<open>C1: the bounds of the normalization\<close>

text \<open>
  C1, as stated, fails: with A at 10 and B without a stored value, the bounds the code
  uses are 10 and 10, while the maximum and minimum of \<open>value(l,c)\<close> over both locations
  are 10 and 0. On a cost criterion A is then normalized to 1, not to 0.
\<close>

theorem saw_bounds_counterexample:
  "saw_bounds (ex_missing ''cost'') (mk_crit ''c1'' 1 ''cost'') = Some (10, 10) \<and>
   value_column (ex_missing ''cost'') (mk_crit ''c1'' 1 ''cost'') = [10, 0] \<and>
   spec_bounds (ex_missing ''cost'') (mk_crit ''c1'' 1 ''cost'') = (10, 0) \<and>
   entry (normalized_matrix (ex_missing ''cost'')) 1 ''c1'' = Some 1"
  by (simp add: ex_defs eval_defs spec_bounds_def value_column_def entry_def)

text \<open>
  C1, amended. For every criterion the bounds used for the normalization are the maximum
  and minimum of the values stored for that criterion in \<^verbatim>\<open>location_criteria\<close>; a location
  without a stored value contributes nothing, and a criterion without any stored value
  has no bounds. They are the maximum and minimum of \<open>value(l,c)\<close> over the locations when
  every location has a stored value for the criterion and every stored row belongs to a
  location.
\<close>

theorem saw_bounds_stored:
  "saw_bounds d crit =
     (if criterion_values d (crit_id crit) = [] then None
      else Some (Max (set (criterion_values d (crit_id crit))),
                 Min (set (criterion_values d (crit_id crit))))) \<and>
   (locations d \<noteq> [] \<and> fully_valued d crit \<longrightarrow> saw_bounds d crit = Some (spec_bounds d crit))"
proof (intro conjI impI)
  show "saw_bounds d crit =
     (if criterion_values d (crit_id crit) = [] then None
      else Some (Max (set (criterion_values d (crit_id crit))),
                 Min (set (criterion_values d (crit_id crit)))))"
    by (rule saw_bounds_eq)
next
  assume a: "locations d \<noteq> [] \<and> fully_valued d crit"
  then have col: "set (criterion_values d (crit_id crit)) = set (value_column d crit)"
    by (simp add: fully_valued_column)
  have "value_column d crit \<noteq> []" using a by (simp add: value_column_def)
  then have "set (criterion_values d (crit_id crit)) \<noteq> {}" using col by simp
  then have "criterion_values d (crit_id crit) \<noteq> []" by auto
  then show "saw_bounds d crit = Some (spec_bounds d crit)"
    using col by (simp add: saw_bounds_eq spec_bounds_def)
qed

theorem saw_bounds_stored_witness:
  "locations (ex_scenario ''cost'') \<noteq> [] \<and>
   criterion_values (ex_scenario ''cost'') ''c1'' = [10, 5] \<and>
   saw_bounds (ex_scenario ''cost'') (mk_crit ''c1'' 1 ''cost'') = Some (10, 5) \<and>
   spec_bounds (ex_scenario ''cost'') (mk_crit ''c1'' 1 ''cost'') = (10, 5)"
proof -
  have h: "locations (ex_scenario ''cost'') \<noteq> [] \<and>
           fully_valued (ex_scenario ''cost'') (mk_crit ''c1'' 1 ''cost'')"
    by (simp add: ex_defs fully_valued_def)
  have v: "criterion_values (ex_scenario ''cost'') ''c1'' = [10, 5] \<and>
           crit_id (mk_crit ''c1'' 1 ''cost'') = ''c1''"
    by (simp add: ex_defs eval_defs)
  have s: "spec_bounds (ex_scenario ''cost'') (mk_crit ''c1'' 1 ''cost'') = (10, 5)"
    by (simp add: ex_defs eval_defs spec_bounds_def value_column_def)
  from saw_bounds_stored [of "ex_scenario ''cost''" "mk_crit ''c1'' 1 ''cost''"] h v s
  show ?thesis by simp
qed

subsection \<open>C2: the normalized values\<close>



subsection \<open>C3: the raw score\<close>

text \<open>
  C3. The raw score of a location is returned exactly when \<^verbatim>\<open>math.pow\<close> raises at no
  criterion, and it is then the product, started at 1 and taken over the criteria in
  order, of the value raised to the weight, negated when the type is \<^verbatim>\<open>cost\<close>; the
  criteria whose value is zero, stored or missing, contribute no factor.
\<close>

theorem wp_raw_score:
  "wp_s_value d loc = Inr (name, s) \<longleftrightarrow>
     (\<forall>c\<in>set (criteria d). \<not> wp_raises d loc c) \<and> name = loc_name loc \<and>
     s = prod_list (map (\<lambda>crit. real_pow (fetch_value d (loc_id loc) (crit_id crit))
                                  (if crit_type crit = ''cost'' then - crit_weight crit
                                   else crit_weight crit))
                        (filter (\<lambda>crit. fetch_value d (loc_id loc) (crit_id crit) \<noteq> 0)
                                (criteria d)))"
  unfolding wp_s_value_Inr_iff by (auto simp: S_spec_def signed_weight_def)

theorem wp_raw_score_witness:
  "\<not> wp_raises (ex_missing ''cost'') (mk_loc 1 ''A'') (mk_crit ''c1'' 1 ''cost'') \<and>
   wp_s_value (ex_missing ''cost'') (mk_loc 1 ''A'') = Inr (''A'', 1/10) \<and>
   wp_s_value (ex_missing ''cost'') (mk_loc 2 ''B'') = Inr (''B'', 1)"
proof -
  have a: "wp_s_value (ex_missing ''cost'') (mk_loc 1 ''A'') = Inr (''A'', 1/10)"
    by (simp add: ex_defs eval_defs powr_minus)
  have b: "wp_s_value (ex_missing ''cost'') (mk_loc 2 ''B'') = Inr (''B'', 1)"
    by (simp add: ex_defs eval_defs)
  have c: "criteria (ex_missing ''cost'') = [mk_crit ''c1'' 1 ''cost'']"
    by (simp add: ex_defs)
  from wp_raw_score [of "ex_missing ''cost''" "mk_loc 1 ''A''" "''A''" "1/10"] a b c
  show ?thesis by simp
qed

subsection \<open>C4: the normalised scores of the weighted product\<close>

text \<open>
  C4, as stated, fails. With seven locations and no stored value every raw score is 1, the
  total is 7, every reported score is 0.1429 and the reported scores add up to 1.0003,
  which is further from 1 than the tolerance 1e-4. With two locations whose raw score is
  the largest double the float total is an infinity, which is positive; both quotients
  are 0 and the reported scores add up to 0.
\<close>

theorem wp_scores_sum_counterexample:
  "calculate_wp ex_seven = Inr (projr (calculate_wp ex_seven)) \<and>
   map wp_s (projr (calculate_wp ex_seven)) = [1, 1, 1, 1, 1, 1, 1] \<and>
   map wp_score (projr (calculate_wp ex_seven)) =
     [1429/10000, 1429/10000, 1429/10000, 1429/10000, 1429/10000, 1429/10000, 1429/10000] \<and>
   sum_list (map wp_s (projr (calculate_wp ex_seven))) > 0 \<and>
   \<not> \<bar>sum_list (map wp_score (projr (calculate_wp ex_seven))) - 1\<bar> \<le> 1/10000 \<and>
   map wfp_score (wp_results_fp ideal_arith ex_sv_seven) =
     [Fin (1429/10000), Fin (1429/10000), Fin (1429/10000), Fin (1429/10000),
      Fin (1429/10000), Fin (1429/10000), Fin (1429/10000)] \<and>
   wp_s_value ex_big (mk_loc 1 ''A'') = Inr (''A'', DBL_MAX) \<and>
   wp_s_value ex_big (mk_loc 2 ''B'') = Inr (''B'', DBL_MAX) \<and>
   fsum ideal_arith (map snd ex_sv_big) = PInf \<and>
   pos (fsum ideal_arith (map snd ex_sv_big)) \<and>
   map wfp_score (wp_results_fp ideal_arith ex_sv_big) = [Fin 0, Fin 0]"
  by (simp add: ex_defs eval_defs fp_defs fp_ex_defs)

text \<open>
  C4, amended. Whatever the float operations, lines 310 to 316 keep the name and the raw
  score of every location, and with \<open>total\<close> the float sum of the raw scores the reported
  score is the rounding of the float quotient of the raw score by \<open>total\<close> when
  \<open>total > 0\<close>, and 0 otherwise. When the raw scores are doubles, \<open>total > 0\<close>, and every
  float quotient is a double at most \<open>\<delta>\<close> away from the raw score divided by the exact
  sum of the raw scores, every reported score is a multiple of 1/10000 and the reported
  scores add up to 1 within \<open>1/20000 + \<delta>\<close> for each location.
\<close>

theorem wp_reported_scores:
  "map (\<lambda>r. (wfp_location r, wfp_s r)) (wp_results_fp ar s_values) = s_values \<and>
   (\<forall>r\<in>set (wp_results_fp ar s_values).
      wfp_score r =
        (if pos (fsum ar (map snd s_values))
         then py_round4 (fdiv ar (wfp_s r) (fsum ar (map snd s_values))) else Fin 0)) \<and>
   (map snd s_values = map Fin Ss \<and> sum_list Ss \<noteq> 0 \<and> pos (fsum ar (map snd s_values)) \<and>
    (\<forall>S\<in>set Ss. \<exists>q. fdiv ar (Fin S) (fsum ar (map snd s_values)) = Fin q \<and>
                      \<bar>q - S / sum_list Ss\<bar> \<le> \<delta>) \<longrightarrow>
      (\<forall>r\<in>set (wp_results_fp ar s_values). \<exists>k::int. wfp_score r = Fin (of_int k / 10000)) \<and>
      \<bar>sum_list (map (\<lambda>r. fin_val (wfp_score r)) (wp_results_fp ar s_values)) - 1\<bar>
        \<le> real (length s_values) * (1/20000 + \<delta>))"
proof (intro conjI impI)
  show "map (\<lambda>r. (wfp_location r, wfp_s r)) (wp_results_fp ar s_values) = s_values"
    by (simp add: wp_results_fp_def Let_def comp_def)
  show "\<forall>r\<in>set (wp_results_fp ar s_values).
      wfp_score r =
        (if pos (fsum ar (map snd s_values))
         then py_round4 (fdiv ar (wfp_s r) (fsum ar (map snd s_values))) else Fin 0)"
    by (auto simp: wp_results_fp_def Let_def)
next
  assume a: "map snd s_values = map Fin Ss \<and> sum_list Ss \<noteq> 0 \<and> pos (fsum ar (map snd s_values)) \<and>
    (\<forall>S\<in>set Ss. \<exists>q. fdiv ar (Fin S) (fsum ar (map snd s_values)) = Fin q \<and>
                      \<bar>q - S / sum_list Ss\<bar> \<le> \<delta>)"
  define T where "T = fsum ar (map snd s_values)"
  have p: "pos T" using a unfolding T_def by blast
  have "map wfp_score (wp_results_fp ar s_values) =
      map (\<lambda>s. py_round4 (fdiv ar s T)) (map snd s_values)"
    unfolding wp_results_fp_scores T_def [symmetric] using p by simp
  also have "\<dots> = map (\<lambda>S. py_round4 (fdiv ar (Fin S) T)) Ss"
    using a by (simp add: comp_def)
  finally have sc: "map wfp_score (wp_results_fp ar s_values) =
      map (\<lambda>S. py_round4 (fdiv ar (Fin S) T)) Ss" .
  have q: "\<forall>S\<in>set Ss. \<exists>q. fdiv ar (Fin S) T = Fin q \<and> \<bar>q - S / sum_list Ss\<bar> \<le> \<delta>"
    using a unfolding T_def by blast
  show "\<forall>r\<in>set (wp_results_fp ar s_values). \<exists>k::int. wfp_score r = Fin (of_int k / 10000)"
  proof
    fix r assume "r \<in> set (wp_results_fp ar s_values)"
    then have "wfp_score r \<in> set (map wfp_score (wp_results_fp ar s_values))" by simp
    then obtain S where S: "S \<in> set Ss" "wfp_score r = py_round4 (fdiv ar (Fin S) T)"
      unfolding sc by auto
    from q S(1) obtain x where "fdiv ar (Fin S) T = Fin x" by blast
    from py_round4_Fin [OF this] S(2) show "\<exists>k::int. wfp_score r = Fin (of_int k / 10000)"
      by auto
  qed
  have len: "length Ss = length s_values"
    using a by (metis length_map)
  have "map (\<lambda>r. fin_val (wfp_score r)) (wp_results_fp ar s_values) =
      map fin_val (map wfp_score (wp_results_fp ar s_values))"
    by (simp add: comp_def)
  also have "\<dots> = map (\<lambda>S. fin_val (py_round4 (fdiv ar (Fin S) T))) Ss"
    unfolding sc by (simp add: comp_def)
  finally have e: "sum_list (map (\<lambda>r. fin_val (wfp_score r)) (wp_results_fp ar s_values)) =
      sum_list (map (\<lambda>S. fin_val (py_round4 (fdiv ar (Fin S) T))) Ss)"
    by simp
  have "sum_list (map (\<lambda>S. S / sum_list Ss) Ss) = sum_list Ss / sum_list Ss"
    by (simp add: sum_list_divide)
  then have one: "sum_list (map (\<lambda>S. S / sum_list Ss) Ss) = 1" using a by simp
  from sum_round_quotients [of Ss "\<lambda>S. fdiv ar (Fin S) T" "sum_list Ss" \<delta>] q
  show "\<bar>sum_list (map (\<lambda>r. fin_val (wfp_score r)) (wp_results_fp ar s_values)) - 1\<bar>
        \<le> real (length s_values) * (1/20000 + \<delta>)"
    unfolding e one len by simp
qed

theorem wp_reported_scores_witness:
  "map snd ex_sv_scenario = map Fin [10, 5] \<and>
   sum_list [10, 5 :: real] \<noteq> 0 \<and>
   fsum ideal_arith (map snd ex_sv_scenario) = Fin 15 \<and>
   pos (fsum ideal_arith (map snd ex_sv_scenario)) \<and>
   fdiv ideal_arith (Fin 10) (fsum ideal_arith (map snd ex_sv_scenario)) = Fin (2/3) \<and>
   fdiv ideal_arith (Fin 5) (fsum ideal_arith (map snd ex_sv_scenario)) = Fin (1/3) \<and>
   map wfp_score (wp_results_fp ideal_arith ex_sv_scenario) =
     [Fin (6667/10000), Fin (3333/10000)] \<and>
   \<bar>sum_list (map (\<lambda>r. fin_val (wfp_score r)) (wp_results_fp ideal_arith ex_sv_scenario)) - 1\<bar>
     \<le> real (length ex_sv_scenario) * (1/20000 + 0)"
proof -
  have h: "map snd ex_sv_scenario = map Fin [10, 5] \<and>
     sum_list [10, 5 :: real] \<noteq> 0 \<and>
     fsum ideal_arith (map snd ex_sv_scenario) = Fin 15 \<and>
     pos (fsum ideal_arith (map snd ex_sv_scenario)) \<and>
     fdiv ideal_arith (Fin 10) (fsum ideal_arith (map snd ex_sv_scenario)) = Fin (2/3) \<and>
     fdiv ideal_arith (Fin 5) (fsum ideal_arith (map snd ex_sv_scenario)) = Fin (1/3)"
    by (simp add: fp_defs fp_ex_defs DBL_MAX_def)
  have v: "map wfp_score (wp_results_fp ideal_arith ex_sv_scenario) =
     [Fin (6667/10000), Fin (3333/10000)]"
    by (simp add: fp_defs fp_ex_defs DBL_MAX_def round4_def round_half_even_def)
  have q10: "\<exists>q. fdiv ideal_arith (Fin 10) (fsum ideal_arith (map snd ex_sv_scenario)) = Fin q \<and>
          \<bar>q - 10 / sum_list [10, 5]\<bar> \<le> 0"
  proof (intro exI [of _ "2/3"] conjI)
    show "fdiv ideal_arith (Fin 10) (fsum ideal_arith (map snd ex_sv_scenario)) = Fin (2/3)"
      using h by blast
    show "\<bar>2/3 - 10 / sum_list [10, 5 :: real]\<bar> \<le> 0" by simp
  qed
  have q5: "\<exists>q. fdiv ideal_arith (Fin 5) (fsum ideal_arith (map snd ex_sv_scenario)) = Fin q \<and>
          \<bar>q - 5 / sum_list [10, 5]\<bar> \<le> 0"
  proof (intro exI [of _ "1/3"] conjI)
    show "fdiv ideal_arith (Fin 5) (fsum ideal_arith (map snd ex_sv_scenario)) = Fin (1/3)"
      using h by blast
    show "\<bar>1/3 - 5 / sum_list [10, 5 :: real]\<bar> \<le> 0" by simp
  qed
  have q: "\<forall>S\<in>set [10, 5 :: real].
      \<exists>q. fdiv ideal_arith (Fin S) (fsum ideal_arith (map snd ex_sv_scenario)) = Fin q \<and>
          \<bar>q - S / sum_list [10, 5]\<bar> \<le> 0"
  proof
    fix S :: real assume "S \<in> set [10, 5]"
    then have "S = 10 \<or> S = 5" by simp
    then show "\<exists>q. fdiv ideal_arith (Fin S) (fsum ideal_arith (map snd ex_sv_scenario)) = Fin q \<and>
          \<bar>q - S / sum_list [10, 5]\<bar> \<le> 0"
      using q10 q5 by blast
  qed
  from wp_reported_scores [of ideal_arith ex_sv_scenario "[10, 5]" 0] h q
  have "\<bar>sum_list (map (\<lambda>r. fin_val (wfp_score r)) (wp_results_fp ideal_arith ex_sv_scenario)) - 1\<bar>
     \<le> real (length ex_sv_scenario) * (1/20000 + 0)"
    by blast
  with h v show ?thesis by blast
qed

subsection \<open>C5: exceptions\<close>

text \<open>
  C5, as stated, fails. A value of -8 on a criterion of weight 1/2 makes \<^verbatim>\<open>math.pow\<close> raise
  \<^verbatim>\<open>ValueError\<close> in \<^verbatim>\<open>calculate_wp\<close>, and nothing catches it. A location and a criterion
  with no stored value at all make \<^verbatim>\<open>calculate_saw\<close> raise \<^verbatim>\<open>KeyError\<close>.
\<close>

theorem exceptions_counterexample:
  "calculate_wp (ex_single (- 8) (1/2) ''benefit'') = Inl ValueError \<and>
   calculate_saw ex_unvalued = Inl KeyError"
  by (simp add: ex_defs eval_defs)

text \<open>
  C5, amended. \<^verbatim>\<open>calculate_saw\<close> returns a list when there is no location, or no criterion,
  or a criterion with a stored value. \<^verbatim>\<open>calculate_wp\<close> returns a list when, for every
  location and criterion whose value is not zero, the value is positive or the weight is
  integral, and the power does not exceed the largest double; a negative value under an
  integral weight is among these. The power of a negative base to a non-integral exponent
  is not guarded: when a location has a negative value for a criterion whose weight is
  not integral, \<^verbatim>\<open>calculate_wp\<close> raises \<^verbatim>\<open>ValueError\<close> or \<^verbatim>\<open>OverflowError\<close>, and it is
  \<^verbatim>\<open>ValueError\<close> when no power overflows.
\<close>

theorem exceptions_amended:
  "((locations d = [] \<or> criteria d = [] \<or>
       (\<exists>c\<in>set (criteria d). criterion_values d (crit_id c) \<noteq> [])) \<longrightarrow>
      (\<exists>out. calculate_saw d = Inr out)) \<and>
   ((\<forall>l\<in>set (locations d). \<forall>c\<in>set (criteria d).
        fetch_value d (loc_id l) (crit_id c) = 0 \<or>
        ((0 < fetch_value d (loc_id l) (crit_id c) \<or> is_integral (crit_weight c)) \<and>
         \<bar>real_pow (fetch_value d (loc_id l) (crit_id c)) (signed_weight c)\<bar> \<le> DBL_MAX)) \<longrightarrow>
      (\<exists>out. calculate_wp d = Inr out)) \<and>
   (l \<in> set (locations d) \<and> c \<in> set (criteria d) \<and>
      fetch_value d (loc_id l) (crit_id c) < 0 \<and> \<not> is_integral (crit_weight c) \<longrightarrow>
      (\<exists>e. calculate_wp d = Inl e \<and> (e = ValueError \<or> e = OverflowError)) \<and>
      ((\<forall>l'\<in>set (locations d). \<forall>c'\<in>set (criteria d).
          math_pow (fetch_value d (loc_id l') (crit_id c')) (signed_weight c') \<noteq> Inl OverflowError) \<longrightarrow>
       calculate_wp d = Inl ValueError))"
proof (intro conjI impI)
  assume "locations d = [] \<or> criteria d = [] \<or>
       (\<exists>c\<in>set (criteria d). criterion_values d (crit_id c) \<noteq> [])"
  then have "locations d = [] \<or> criteria d = [] \<or> (\<exists>c\<in>set (criteria d). saw_bounds d c \<noteq> None)"
    by (auto simp: saw_bounds_eq)
  then show "\<exists>out. calculate_saw d = Inr out" by (rule calculate_saw_total)
next
  assume "\<forall>l\<in>set (locations d). \<forall>c\<in>set (criteria d).
        fetch_value d (loc_id l) (crit_id c) = 0 \<or>
        ((0 < fetch_value d (loc_id l) (crit_id c) \<or> is_integral (crit_weight c)) \<and>
         \<bar>real_pow (fetch_value d (loc_id l) (crit_id c)) (signed_weight c)\<bar> \<le> DBL_MAX)"
  then have "\<forall>l\<in>set (locations d). \<forall>c\<in>set (criteria d). \<not> wp_raises d l c"
    using wp_not_raises_defined by blast
  then show "\<exists>out. calculate_wp d = Inr out" by (rule calculate_wp_total)
next
  assume a: "l \<in> set (locations d) \<and> c \<in> set (criteria d) \<and>
      fetch_value d (loc_id l) (crit_id c) < 0 \<and> \<not> is_integral (crit_weight c)"
  then have "wp_raises d l c" by (simp add: wp_raises_negative)
  with a obtain e where e: "calculate_wp d = Inl e"
    using calculate_wp_raises by blast
  from calculate_wp_Inl [OF e] obtain l' c' where
    p: "l' \<in> set (locations d)" "c' \<in> set (criteria d)"
       "math_pow (fetch_value d (loc_id l') (crit_id c')) (signed_weight c') = Inl e"
    by blast
  from math_pow_Inl [OF p(3)] have k: "e = ValueError \<or> e = OverflowError" .
  with e show "\<exists>e. calculate_wp d = Inl e \<and> (e = ValueError \<or> e = OverflowError)" by blast
  show "calculate_wp d = Inl ValueError"
    if "\<forall>l'\<in>set (locations d). \<forall>c'\<in>set (criteria d).
          math_pow (fetch_value d (loc_id l') (crit_id c')) (signed_weight c') \<noteq> Inl OverflowError"
  proof -
    from that p have "e \<noteq> OverflowError" by auto
    with k e show ?thesis by simp
  qed
qed

theorem exceptions_amended_witness:
  "criterion_values (ex_scenario ''cost'') ''c1'' \<noteq> [] \<and>
   \<not> isl (calculate_saw (ex_scenario ''cost'')) \<and>
   \<not> isl (calculate_wp (ex_scenario ''cost'')) \<and>
   fetch_value (ex_single (- 2) 3 ''benefit'') 1 ''c1'' = - 2 \<and>
   is_integral 3 \<and>
   real_pow (- 2) 3 = - 8 \<and>
   \<not> isl (calculate_wp (ex_single (- 2) 3 ''benefit'')) \<and>
   fetch_value (ex_single (- 8) (1/2) ''benefit'') 1 ''c1'' < 0 \<and>
   \<not> is_integral (1/2) \<and>
   calculate_wp (ex_single (- 8) (1/2) ''benefit'') = Inl ValueError"
proof -
  have v: "criterion_values (ex_scenario ''cost'') ''c1'' \<noteq> [] \<and>
     criteria (ex_scenario ''cost'') = [mk_crit ''c1'' 1 ''cost''] \<and>
     locations (ex_scenario ''cost'') = [mk_loc 1 ''A'', mk_loc 2 ''B''] \<and>
     crit_id (mk_crit ''c1'' 1 ''cost'') = ''c1'' \<and>
     fetch_value (ex_scenario ''cost'') (loc_id (mk_loc 1 ''A'')) ''c1'' = 10 \<and>
     fetch_value (ex_scenario ''cost'') (loc_id (mk_loc 2 ''B'')) ''c1'' = 5 \<and>
     signed_weight (mk_crit ''c1'' 1 ''cost'') = - 1"
    by (simp add: ex_defs eval_defs)
  have r: "\<bar>real_pow 10 (- 1)\<bar> \<le> DBL_MAX \<and> \<bar>real_pow 5 (- 1)\<bar> \<le> DBL_MAX"
    by (simp add: real_pow_def powr_minus DBL_MAX_def)
  note t = exceptions_amended [of "ex_scenario ''cost''"]
  from t v have s: "\<exists>out. calculate_saw (ex_scenario ''cost'') = Inr out" by simp
  from t v r have w: "\<exists>out. calculate_wp (ex_scenario ''cost'') = Inr out" by simp
  have m: "criteria (ex_single (- 2) 3 ''benefit'') = [mk_crit ''c1'' 3 ''benefit''] \<and>
     locations (ex_single (- 2) 3 ''benefit'') = [mk_loc 1 ''A''] \<and>
     crit_id (mk_crit ''c1'' 3 ''benefit'') = ''c1'' \<and> loc_id (mk_loc 1 ''A'') = 1 \<and>
     fetch_value (ex_single (- 2) 3 ''benefit'') 1 ''c1'' = - 2 \<and>
     signed_weight (mk_crit ''c1'' 3 ''benefit'') = 3 \<and>
     crit_weight (mk_crit ''c1'' 3 ''benefit'') = 3 \<and> is_integral 3 \<and>
     real_pow (- 2) 3 = - 8 \<and> \<bar>- 8 :: real\<bar> \<le> DBL_MAX"
    by (simp add: ex_defs eval_defs)
  from exceptions_amended [of "ex_single (- 2) 3 ''benefit''"] m
  have i: "\<exists>out. calculate_wp (ex_single (- 2) 3 ''benefit'') = Inr out" by simp
  have n: "locations (ex_single (- 8) (1/2) ''benefit'') = [mk_loc 1 ''A''] \<and>
     criteria (ex_single (- 8) (1/2) ''benefit'') = [mk_crit ''c1'' (1/2) ''benefit''] \<and>
     fetch_value (ex_single (- 8) (1/2) ''benefit'') 1 ''c1'' < 0 \<and>
     loc_id (mk_loc 1 ''A'') = 1 \<and> crit_id (mk_crit ''c1'' (1/2) ''benefit'') = ''c1'' \<and>
     crit_weight (mk_crit ''c1'' (1/2) ''benefit'') = 1/2 \<and> \<not> is_integral (1/2) \<and>
     math_pow (fetch_value (ex_single (- 8) (1/2) ''benefit'') 1 ''c1'')
       (signed_weight (mk_crit ''c1'' (1/2) ''benefit'')) \<noteq> Inl OverflowError"
    by (simp add: ex_defs eval_defs)
  from exceptions_amended [of "ex_single (- 8) (1/2) ''benefit''" "mk_loc 1 ''A''"
      "mk_crit ''c1'' (1/2) ''benefit''"] n
  have e: "calculate_wp (ex_single (- 8) (1/2) ''benefit'') = Inl ValueError" by simp
  from s w i e v m n show ?thesis by auto
qed

subsection \<open>C6: the ranking\<close>



subsection \<open>C7: the score of the additive weighting\<close>



subsection \<open>C8: a type that is neither benefit nor cost\<close>

text \<open>
  C8, as stated, fails for the weighted product: on a criterion of type \<^verbatim>\<open>other\<close>, weight 1
  and value 2 the raw score is 2, the value raised to the weight, where the cost treatment
  gives 1/2.
\<close>

theorem other_type_counterexample:
  "crit_type (mk_crit ''c1'' 1 ''other'') \<noteq> ''benefit'' \<and>
   criteria (ex_single 2 1 ''other'') = [mk_crit ''c1'' 1 ''other''] \<and>
   calculate_wp (ex_single 2 1 ''other'') = Inr [\<lparr>wp_location = ''A'', wp_score = 1, wp_s = 2\<rparr>] \<and>
   calculate_wp (ex_single 2 1 ''cost'') = Inr [\<lparr>wp_location = ''A'', wp_score = 1, wp_s = 1/2\<rparr>] \<and>
   calculate_wp (ex_single 2 1 ''benefit'') = Inr [\<lparr>wp_location = ''A'', wp_score = 1, wp_s = 2\<rparr>]"
  by (simp add: ex_defs eval_defs powr_minus)

text \<open>
  C8, amended. The additive weighting gives the cost treatment to every type other than
  \<^verbatim>\<open>benefit\<close>: it uses the cost formula, and its result is the one it returns when all
  those types are rewritten to \<^verbatim>\<open>cost\<close>. The weighted product gives the benefit treatment
  to every type other than \<^verbatim>\<open>cost\<close>: it keeps the sign of the weight, and its result is the
  one it returns when all those types are rewritten to \<^verbatim>\<open>benefit\<close>. Neither reports a
  validation error for such a type.
\<close>

theorem other_type_treatment:
  "(crit_type c \<noteq> ''benefit'' \<longrightarrow>
      normalize c max_c min_c v = (if min_c > 0 \<and> v > 0 then min_c / v else 0)) \<and>
   calculate_saw (with_types as_cost d) = calculate_saw d \<and>
   (crit_type c \<noteq> ''cost'' \<longrightarrow> signed_weight c = crit_weight c) \<and>
   (crit_type c = ''cost'' \<longrightarrow> signed_weight c = - crit_weight c) \<and>
   calculate_wp (with_types as_benefit d) = calculate_wp d"
  by (simp add: normalize_def signed_weight_def with_types_saw with_types_wp)

theorem other_type_treatment_witness:
  "crit_type (mk_crit ''c1'' 1 ''other'') \<noteq> ''benefit'' \<and>
   crit_type (mk_crit ''c1'' 1 ''other'') \<noteq> ''cost'' \<and>
   normalize (mk_crit ''c1'' 1 ''other'') 10 5 10 = 1/2 \<and>
   signed_weight (mk_crit ''c1'' 1 ''other'') = 1 \<and>
   with_types as_cost (ex_scenario ''other'') = ex_scenario ''cost'' \<and>
   with_types as_benefit (ex_scenario ''other'') = ex_scenario ''benefit'' \<and>
   calculate_saw (ex_scenario ''other'') = calculate_saw (ex_scenario ''cost'') \<and>
   calculate_wp (ex_scenario ''other'') = calculate_wp (ex_scenario ''benefit'')"
proof -
  have h: "crit_type (mk_crit ''c1'' 1 ''other'') \<noteq> ''benefit'' \<and>
     crit_type (mk_crit ''c1'' 1 ''other'') \<noteq> ''cost'' \<and>
     crit_weight (mk_crit ''c1'' 1 ''other'') = 1"
    by (simp add: ex_defs)
  have w: "with_types as_cost (ex_scenario ''other'') = ex_scenario ''cost'' \<and>
     with_types as_benefit (ex_scenario ''other'') = ex_scenario ''benefit''"
    by (simp add: ex_defs with_types_def as_cost_def as_benefit_def)
  from other_type_treatment [of "mk_crit ''c1'' 1 ''other''" 10 5 10 "ex_scenario ''other''"] h w
  show ?thesis by simp
qed

subsection \<open>C9: the range of a benefit criterion\<close>

text \<open>
  C9, as stated, fails. With A at 10 and B at -5 on a benefit criterion, B is normalized
  to -1/2, below 0. With a single location whose stored value is 0 the maximum is 0, the
  location achieves it, and it is normalized to 0, not to 1.
\<close>

theorem saw_benefit_range_counterexample:
  "crit_type (mk_crit ''c1'' 1 ''benefit'') = ''benefit'' \<and>
   criteria ex_negative = [mk_crit ''c1'' 1 ''benefit''] \<and>
   entry (normalized_matrix ex_negative) 2 ''c1'' = Some (- 1/2) \<and>
   criteria (ex_single 0 1 ''benefit'') = [mk_crit ''c1'' 1 ''benefit''] \<and>
   saw_bounds (ex_single 0 1 ''benefit'') (mk_crit ''c1'' 1 ''benefit'') = Some (0, 0) \<and>
   fetch_value (ex_single 0 1 ''benefit'') 1 ''c1'' = 0 \<and>
   entry (normalized_matrix (ex_single 0 1 ''benefit'')) 1 ''c1'' = Some 0"
  by (simp add: ex_defs eval_defs entry_def)

text \<open>
  C9, amended. The criterion ids are a primary key. For a benefit criterion with bounds
  \<open>max_c\<close> and \<open>min_c\<close> and every location, the normalized value \<open>n\<close> is at most 1; it
  is at least 0 exactly when the value of the location is not negative or \<open>max_c\<close> is not
  positive; and for a location whose value is \<open>max_c\<close> it is 1 exactly when \<open>max_c > 0\<close>.
\<close>

theorem saw_benefit_range:
  assumes "distinct (map crit_id (criteria d))" "loc \<in> set (locations d)" "crit \<in> set (criteria d)"
    and "crit_type crit = ''benefit''" "saw_bounds d crit = Some (max_c, min_c)"
  shows "\<exists>n. entry (normalized_matrix d) (loc_id loc) (crit_id crit) = Some n \<and>
           n \<le> 1 \<and>
           (0 \<le> n \<longleftrightarrow> 0 \<le> fetch_value d (loc_id loc) (crit_id crit) \<or> max_c \<le> 0) \<and>
           (fetch_value d (loc_id loc) (crit_id crit) = max_c \<longrightarrow> (n = 1 \<longleftrightarrow> 0 < max_c))"
proof -
  define v where "v = fetch_value d (loc_id loc) (crit_id crit)"
  define n where "n = (if max_c > 0 then v / max_c else 0)"
  have e: "entry (normalized_matrix d) (loc_id loc) (crit_id crit) = Some n"
    using nm_entry [OF assms(1,3,2)] assms(4,5) by (simp add: normalize_def n_def v_def)
  have ne: "criterion_values d (crit_id crit) \<noteq> []" and
    mx: "max_c = Max (set (criterion_values d (crit_id crit)))"
    using assms(5) by (auto simp: saw_bounds_eq split: if_splits)
  have le: "v \<le> max_c" if "max_c > 0"
  proof (cases "v = 0")
    case True
    with that show ?thesis by simp
  next
    case False
    then have "v \<in> set (criterion_values d (crit_id crit))"
      unfolding v_def by (rule fetch_value_stored)
    then show ?thesis unfolding mx by simp
  qed
  have "n \<le> 1" using le by (simp add: n_def)
  moreover have "0 \<le> n \<longleftrightarrow> 0 \<le> v \<or> max_c \<le> 0"
    by (auto simp: n_def zero_le_divide_iff)
  moreover have "v = max_c \<longrightarrow> (n = 1 \<longleftrightarrow> 0 < max_c)"
    by (auto simp: n_def)
  ultimately show ?thesis using e unfolding v_def by blast
qed

theorem saw_benefit_range_witness:
  "distinct (map crit_id (criteria ex_negative)) \<and>
   mk_loc 1 ''A'' \<in> set (locations ex_negative) \<and>
   mk_crit ''c1'' 1 ''benefit'' \<in> set (criteria ex_negative) \<and>
   crit_type (mk_crit ''c1'' 1 ''benefit'') = ''benefit'' \<and>
   saw_bounds ex_negative (mk_crit ''c1'' 1 ''benefit'') = Some (10, - 5) \<and>
   fetch_value ex_negative 1 ''c1'' = 10 \<and>
   entry (normalized_matrix ex_negative) 1 ''c1'' = Some 1"
proof -
  have h: "distinct (map crit_id (criteria ex_negative)) \<and>
     mk_loc 1 ''A'' \<in> set (locations ex_negative) \<and>
     mk_crit ''c1'' 1 ''benefit'' \<in> set (criteria ex_negative) \<and>
     crit_type (mk_crit ''c1'' 1 ''benefit'') = ''benefit''"
    by (simp add: ex_defs)
  have b: "saw_bounds ex_negative (mk_crit ''c1'' 1 ''benefit'') = Some (10, - 5)"
    by (simp add: ex_defs eval_defs)
  have v: "fetch_value ex_negative 1 ''c1'' = 10 \<and> loc_id (mk_loc 1 ''A'') = 1 \<and>
     crit_id (mk_crit ''c1'' 1 ''benefit'') = ''c1''"
    by (simp add: ex_defs eval_defs)
  from saw_benefit_range [of ex_negative "mk_loc 1 ''A''" "mk_crit ''c1'' 1 ''benefit''" 10 "- 5"] h b
  obtain n where "entry (normalized_matrix ex_negative) (loc_id (mk_loc 1 ''A''))
       (crit_id (mk_crit ''c1'' 1 ''benefit'')) = Some n"
    "fetch_value ex_negative (loc_id (mk_loc 1 ''A'')) (crit_id (mk_crit ''c1'' 1 ''benefit'')) = 10
       \<longrightarrow> (n = 1 \<longleftrightarrow> (0::real) < 10)"
    by blast
  then have "entry (normalized_matrix ex_negative) 1 ''c1'' = Some 1"
    using v by simp
  with h b v show ?thesis by simp
qed

subsection \<open>C10: a location without any value\<close>

text \<open>
  C10. A location whose value is 0, stored or missing, for every criterion gets the raw
  score 1, the untouched accumulator, and when \<^verbatim>\<open>calculate_wp\<close> returns it is in the
  ranking with that raw score. It can outrank a location whose product is below 1: with A
  at 10 on a cost criterion of weight 1 and B without a value, B comes first with raw
  score 1 and A second with raw score 1/10.
\<close>

theorem wp_unvalued_location:
  "(loc \<in> set (locations d) \<and> (\<forall>c\<in>set (criteria d). fetch_value d (loc_id loc) (crit_id c) = 0) \<longrightarrow>
      wp_s_value d loc = Inr (loc_name loc, 1) \<and>
      (\<forall>out. criteria d \<noteq> [] \<and> calculate_wp d = Inr out \<longrightarrow>
         (\<exists>r\<in>set out. wp_location r = loc_name loc \<and> wp_s r = 1))) \<and>
   (\<forall>c\<in>set (criteria (ex_missing ''cost'')).
      fetch_value (ex_missing ''cost'') (loc_id (mk_loc 2 ''B'')) (crit_id c) = 0) \<and>
   calculate_wp (ex_missing ''cost'') =
     Inr [\<lparr>wp_location = ''B'', wp_score = 9091/10000, wp_s = 1\<rparr>,
          \<lparr>wp_location = ''A'', wp_score = 909/10000, wp_s = 1/10\<rparr>]"
proof (intro conjI impI)
  assume a: "loc \<in> set (locations d) \<and> (\<forall>c\<in>set (criteria d). fetch_value d (loc_id loc) (crit_id c) = 0)"
  then have nr: "\<forall>c\<in>set (criteria d). \<not> wp_raises d loc c"
    by (simp add: wp_raises_def)
  have "filter (\<lambda>crit. fetch_value d (loc_id loc) (crit_id crit) \<noteq> 0) (criteria d) = []"
    using a by (simp add: filter_empty_conv)
  then have S: "S_spec d loc = 1" by (simp add: S_spec_def)
  with nr show v: "wp_s_value d loc = Inr (loc_name loc, 1)"
    by (simp add: wp_s_value_Inr_iff)
  show "\<forall>out. criteria d \<noteq> [] \<and> calculate_wp d = Inr out \<longrightarrow>
         (\<exists>r\<in>set out. wp_location r = loc_name loc \<and> wp_s r = 1)"
  proof (intro allI impI)
    fix out assume o: "criteria d \<noteq> [] \<and> calculate_wp d = Inr out"
    from a have ne: "locations d \<noteq> []" by auto
    define T where "T = sum_list (map (S_spec d) (locations d))"
    have "out = py_sorted_reverse wp_score
        (map (wp_row T) (map (\<lambda>l. (loc_name l, S_spec d l)) (locations d)))"
      unfolding T_def using ne o by (intro calculate_wp_Inr) simp_all
    then have "set out = set (map (wp_row T) (map (\<lambda>l. (loc_name l, S_spec d l)) (locations d)))"
      by (metis mset_py_sorted_reverse set_mset_mset)
    then have "wp_row T (loc_name loc, S_spec d loc) \<in> set out"
      using a by auto
    then show "\<exists>r\<in>set out. wp_location r = loc_name loc \<and> wp_s r = 1"
      using S by (auto simp: wp_row_def intro!: bexI [of _ "wp_row T (loc_name loc, S_spec d loc)"])
  qed
next
  show "\<forall>c\<in>set (criteria (ex_missing ''cost'')).
      fetch_value (ex_missing ''cost'') (loc_id (mk_loc 2 ''B'')) (crit_id c) = 0"
    by (simp add: ex_defs eval_defs)
next
  show "calculate_wp (ex_missing ''cost'') =
     Inr [\<lparr>wp_location = ''B'', wp_score = 9091/10000, wp_s = 1\<rparr>,
          \<lparr>wp_location = ''A'', wp_score = 909/10000, wp_s = 1/10\<rparr>]"
    by (simp add: ex_defs eval_defs powr_minus)
qed

theorem wp_unvalued_location_witness:
  "mk_loc 2 ''B'' \<in> set (locations (ex_missing ''cost'')) \<and>
   fetch_value (ex_missing ''cost'') 2 ''c1'' = 0 \<and>
   criteria (ex_missing ''cost'') \<noteq> [] \<and>
   wp_s_value (ex_missing ''cost'') (mk_loc 2 ''B'') = Inr (''B'', 1) \<and>
   \<lparr>wp_location = ''B'', wp_score = 9091/10000, wp_s = 1\<rparr>
     \<in> set (projr (calculate_wp (ex_missing ''cost'')))"
proof -
  have h: "mk_loc 2 ''B'' \<in> set (locations (ex_missing ''cost'')) \<and>
     criteria (ex_missing ''cost'') \<noteq> [] \<and> loc_name (mk_loc 2 ''B'') = ''B'' \<and>
     fetch_value (ex_missing ''cost'') 2 ''c1'' = 0"
    by (simp add: ex_defs eval_defs)
  note t = wp_unvalued_location [of "mk_loc 2 ''B''" "ex_missing ''cost''"]
  from t have c: "\<lparr>wp_location = ''B'', wp_score = 9091/10000, wp_s = 1\<rparr>
     \<in> set (projr (calculate_wp (ex_missing ''cost'')))"
    by simp
  from t h have "wp_s_value (ex_missing ''cost'') (mk_loc 2 ''B'') = Inr (''B'', 1)"
    by metis
  with h c show ?thesis by simp
qed

end
